theory Spec2Isabelle
  imports Complex_Main "HOL-Library.AList" "HOL-Library.Log_Nat"
begin

section \<open>Values, records and configuration\<close>

text \<open>
  The telemetry pipeline of the player is the class \<^verbatim>\<open>Analytics\<close>. Its numbers are
  JavaScript numbers: clock readings, durations and counters are integers here, and the
  one quotient (the buffering ratio) is computed in exact rational arithmetic, which
  idealises IEEE doubles. A plain object is the list of its own properties in insertion
  order.
\<close>

type_synonym addr = nat

datatype jsval = JNum rat | JStr string | JBool bool | JNull | JObj "(string \<times> jsval) list"

type_synonym obj = "(string \<times> jsval) list"

datatype exn = Exn string

text \<open>A statement either completes normally or throws; both leave a state behind.\<close>

datatype 'a completion = Normal 'a | Throw exn 'a

definition and_then :: "'a completion \<Rightarrow> ('a \<Rightarrow> 'a completion) \<Rightarrow> 'a completion" where
  "and_then c f = (case c of Normal w \<Rightarrow> f w | Throw e w \<Rightarrow> Throw e w)"

definition try_catch :: "'a completion \<Rightarrow> (exn \<Rightarrow> 'a \<Rightarrow> 'a completion) \<Rightarrow> 'a completion" where
  "try_catch c h = (case c of Normal w \<Rightarrow> Normal w | Throw e w \<Rightarrow> h e w)"

definition state_of :: "'a completion \<Rightarrow> 'a" where
  "state_of c = (case c of Normal w \<Rightarrow> w | Throw e w \<Rightarrow> w)"

text \<open>\<^verbatim>\<open>AnalyticsEvent\<close> of types.ts; \<^verbatim>\<open>data\<close> is held by value.\<close>

record AnalyticsEvent =
  eventType :: string
  timestamp :: int
  ev_sessionId :: string
  ev_videoId :: "string option"
  ev_userId :: "string option"
  data :: obj

text \<open>
  A user callback either returns (\<open>None\<close>) or throws (\<open>Some e\<close>) when invoked; a transform
  maps a record to a payload or throws. A connection is a URL or an instance supplied
  by the caller.
\<close>

type_synonym callback = "exn option"

type_synonym transform = "AnalyticsEvent \<Rightarrow> exn + jsval"

datatype connection = Url string | Instance

record WebSocketAnalyticsHandler =
  ws_connection :: connection
  ws_transform :: "transform option"
  ws_onError :: "callback option"
  ws_onOpen :: "callback option"
  ws_onClose :: "callback option"
  autoReconnect :: "bool option"
  reconnectDelay :: "int option"

record SocketIOAnalyticsHandler =
  io_connection :: connection
  io_eventName :: "string option"
  io_transform :: "transform option"
  io_onError :: "callback option"
  io_onConnect :: "callback option"
  io_onDisconnect :: "callback option"

text \<open>
  The handler union is discriminated by its \<^verbatim>\<open>type\<close> tag; a handler without a tag is
  treated as a native WebSocket handler by the constructor, so it is a
  \<open>WebSocketHandler\<close> here.
\<close>

datatype handler = WebSocketHandler WebSocketAnalyticsHandler | SocketIOHandler SocketIOAnalyticsHandler

record AnalyticsConfig =
  cfg_enabled :: "bool option"
  cfg_endpoint :: "string option"
  cfg_webSocket :: "handler option"
  cfg_sessionId :: "string option"
  cfg_userId :: "string option"
  cfg_videoId :: "string option"

datatype ws_id = Adopted | Created nat

datatype io_id = IoAdopted | IoCreated

text \<open>The private fields of \<^verbatim>\<open>Analytics\<close>; \<^verbatim>\<open>events\<close> is a reference to an array.\<close>

record Analytics =
  config :: "AnalyticsConfig option"
  sessionId :: string
  events :: addr
  sessionStartTime :: int
  playbackStartTime :: "int option"
  totalPlayTime :: int
  totalBufferTime :: int
  bufferStartTime :: "int option"
  rebufferCount :: nat
  seekCount :: nat
  webSocket :: "ws_id option"
  socketIO :: "io_id option"
  wsReconnectTimeout :: "nat option"
  isDestroyed :: bool

section \<open>Metric accumulator\<close>

text \<open>
  \<^verbatim>\<open>if (this.playbackStartTime)\<close> tests truthiness: the marker counts as open when it is
  neither \<^verbatim>\<open>null\<close> nor the number 0.
\<close>

definition truthy_num :: "int option \<Rightarrow> bool" where
  "truthy_num m = (case m of None \<Rightarrow> False | Some t \<Rightarrow> t \<noteq> 0)"

text \<open>\<^verbatim>\<open>updateMetrics\<close>; \<open>now\<close> is the value \<^verbatim>\<open>Date.now()\<close> returns inside it.\<close>

definition updateMetrics :: "string \<Rightarrow> int \<Rightarrow> Analytics \<Rightarrow> Analytics" where
  "updateMetrics ty now a =
     (if ty = ''play'' then a\<lparr>playbackStartTime := Some now\<rparr>
      else if ty = ''pause'' \<or> ty = ''ended'' then
        (if truthy_num (playbackStartTime a)
         then a\<lparr>totalPlayTime := totalPlayTime a + (now - the (playbackStartTime a)),
                playbackStartTime := None\<rparr>
         else a)
      else if ty = ''buffering_start'' then
        a\<lparr>bufferStartTime := Some now, rebufferCount := Suc (rebufferCount a)\<rparr>
      else if ty = ''buffering_end'' then
        (if truthy_num (bufferStartTime a)
         then a\<lparr>totalBufferTime := totalBufferTime a + (now - the (bufferStartTime a)),
                bufferStartTime := None\<rparr>
         else a)
      else if ty = ''seeked'' then a\<lparr>seekCount := Suc (seekCount a)\<rparr>
      else a)"

text \<open>
  A JavaScript number is an IEEE 754 binary64 value, and \<^verbatim>\<open>/\<close> and \<^verbatim>\<open>*\<close> return the
  double nearest to the exact result, a tie going to the even mantissa. A finite double
  is kept as the rational it denotes; \<open>fl x\<close> is the double nearest to \<open>x\<close>: with
  \<open>2 ^ e \<le> \<bar>x\<bar> < 2 ^ (e + 1)\<close>, the multiple of \<open>2 ^ (e - 52)\<close> nearest to \<open>x\<close>. The range of
  the exponent is not bounded: the operands here are totals of differences of clock
  readings in milliseconds and 1000, far from overflow and underflow. The totals
  themselves are integers below \<open>2 ^ 53\<close> in magnitude, which doubles add and subtract
  exactly.
\<close>

definition expo :: "rat \<Rightarrow> int" where
  "expo x = (let (p, q) = quotient_of \<bar>x\<bar>; e0 = bitlen p - bitlen q
             in if 2 powi e0 \<le> \<bar>x\<bar> then e0 else e0 - 1)"

definition round_even :: "rat \<Rightarrow> int" where
  "round_even x = (let f = \<lfloor>x\<rfloor>; d = x - of_int f
                   in if d < 1 / 2 then f else if 1 / 2 < d then f + 1
                      else if even f then f else f + 1)"

definition fl :: "rat \<Rightarrow> rat" where
  "fl x = (if x = 0 then 0
           else of_int (round_even (x * 2 powi (52 - expo x))) * 2 powi (expo x - 52))"

text \<open>\<^verbatim>\<open>Math.round\<close> rounds to the nearest integer, a tie towards \<open>+\<infinity>\<close>.\<close>

definition Math_round :: "rat \<Rightarrow> int" where
  "Math_round x = \<lfloor>x + 1 / 2\<rfloor>"

text \<open>The local \<^verbatim>\<open>bufferingRatio\<close> of \<^verbatim>\<open>getQoEMetrics\<close>.\<close>

definition bufferingRatio :: "Analytics \<Rightarrow> rat" where
  "bufferingRatio a =
     (if totalPlayTime a > 0 then fl (of_int (totalBufferTime a) / of_int (totalPlayTime a)) else 0)"

text \<open>\<^verbatim>\<open>getQoEMetrics\<close>; \<open>now\<close> is its own reading of the clock.\<close>

definition getQoEMetrics :: "int \<Rightarrow> Analytics \<Rightarrow> obj" where
  "getQoEMetrics now a =
     [(''sessionDuration'', JNum (of_int (now - sessionStartTime a))),
      (''totalPlayTime'', JNum (of_int (totalPlayTime a))),
      (''totalBufferTime'', JNum (of_int (totalBufferTime a))),
      (''bufferingRatio'', JNum (fl (of_int (Math_round (fl (bufferingRatio a * 1000))) / 1000))),
      (''rebufferCount'', JNum (of_nat (rebufferCount a))),
      (''seekCount'', JNum (of_nat (seekCount a)))]"

text \<open>
  Object spread \<^verbatim>\<open>{...target, ...src}\<close>: each property of \<open>src\<close> in turn overwrites the
  property of that name or is appended.
\<close>

definition spread :: "obj \<Rightarrow> obj \<Rightarrow> obj" where
  "spread target src = fold (\<lambda>(k, v). AList.update k v) src target"

section \<open>The environment of an instance\<close>

text \<open>
  What an \<^verbatim>\<open>Analytics\<close> object can reach: the heap of arrays and of plain objects, the
  WebSocket and Socket.IO objects, the pending timers of \<^verbatim>\<open>window.setTimeout\<close>, the
  requests in flight, and the trace of what it did to the outside. Development-mode
  \<^verbatim>\<open>console.log\<close> output is not part of the trace.
\<close>

datatype ready_state = CONNECTING | OPEN | CLOSING | CLOSED

record ws_object =
  readyState :: ready_state
  hooked :: bool

datatype payload = Raw AnalyticsEvent | Transformed jsval

datatype fetch_outcome = Rejected | Responded nat

datatype effect =
    HttpPost string AnalyticsEvent
  | WsSend ws_id payload
  | IoEmit io_id string payload
  | ConsoleError string
  | Uncaught exn

text \<open>The three readings of \<^verbatim>\<open>Date.now()\<close> one call of \<^verbatim>\<open>trackEvent\<close> takes, in order.\<close>

record reads =
  at_timestamp :: int
  at_metrics :: int
  at_update :: int

record browser =
  userAgent :: string
  platform :: string
  language :: string
  screen_width :: string
  screen_height :: string
  innerWidth :: string
  innerHeight :: string
  nav_connection :: "(jsval \<times> jsval \<times> jsval \<times> jsval) option"

text \<open>
  \<open>hooked\<close> says that the handlers of \<^verbatim>\<open>initializeWebSocket\<close> are installed on a socket;
  \<open>ws_inits\<close> counts the calls of \<^verbatim>\<open>initializeWebSocket\<close> (a history variable);
  \<open>timers\<close> holds handle and delay of every pending timeout.
\<close>

record world =
  self :: Analytics
  arrays :: "addr \<Rightarrow> AnalyticsEvent list"
  objects :: "addr \<Rightarrow> obj"
  next_addr :: addr
  sockets :: "ws_id \<Rightarrow> ws_object"
  next_socket :: nat
  url_ok :: "string \<Rightarrow> bool"
  io_connected :: "io_id \<Rightarrow> bool"
  io_hooked :: "io_id \<Rightarrow> bool"
  io_importing :: bool
  timers :: "(nat \<times> int) list"
  next_timer :: nat
  inflight :: nat
  effects :: "effect list"
  ws_inits :: nat

definition alloc_array :: "AnalyticsEvent list \<Rightarrow> world \<Rightarrow> world" where
  "alloc_array xs w = w\<lparr>arrays := (arrays w)(next_addr w := xs), next_addr := Suc (next_addr w)\<rparr>"

definition alloc_obj :: "obj \<Rightarrow> world \<Rightarrow> world" where
  "alloc_obj x w = w\<lparr>objects := (objects w)(next_addr w := x), next_addr := Suc (next_addr w)\<rparr>"

definition console_error :: "string \<Rightarrow> world \<Rightarrow> world" where
  "console_error msg w = w\<lparr>effects := effects w @ [ConsoleError msg]\<rparr>"

definition invoke :: "callback option \<Rightarrow> world \<Rightarrow> world completion" where
  "invoke cb w = (case cb of None \<Rightarrow> Normal w | Some None \<Rightarrow> Normal w | Some (Some e) \<Rightarrow> Throw e w)"

definition enabled :: "Analytics \<Rightarrow> bool" where
  "enabled a = (case config a of None \<Rightarrow> False | Some c \<Rightarrow> cfg_enabled c = Some True)"

definition truthy_str :: "string option \<Rightarrow> bool" where
  "truthy_str s = (case s of None \<Rightarrow> False | Some x \<Rightarrow> x \<noteq> [])"

definition config_webSocket :: "Analytics \<Rightarrow> handler option" where
  "config_webSocket a = (case config a of None \<Rightarrow> None | Some c \<Rightarrow> cfg_webSocket c)"

text \<open>
  \<^verbatim>\<open>wsConfig?.transform ? wsConfig.transform(event) : event\<close>; the cast of the handler
  is unchecked, so the property is read from whichever handler is configured.
\<close>

definition handler_transform :: "handler \<Rightarrow> transform option" where
  "handler_transform h =
     (case h of WebSocketHandler c \<Rightarrow> ws_transform c | SocketIOHandler c \<Rightarrow> io_transform c)"

definition make_payload :: "handler option \<Rightarrow> AnalyticsEvent \<Rightarrow> exn + payload" where
  "make_payload h event =
     (case h of None \<Rightarrow> Inr (Raw event)
      | Some c \<Rightarrow>
          (case handler_transform c of None \<Rightarrow> Inr (Raw event)
           | Some f \<Rightarrow> (case f event of Inl e \<Rightarrow> Inl e | Inr v \<Rightarrow> Inr (Transformed v))))"

definition handler_eventName :: "handler option \<Rightarrow> string" where
  "handler_eventName h =
     (case h of Some (SocketIOHandler c) \<Rightarrow>
        (if truthy_str (io_eventName c) then the (io_eventName c) else ''analytics'')
      | _ \<Rightarrow> ''analytics'')"

section \<open>Transport sinks\<close>

text \<open>
  \<^verbatim>\<open>sendToWebSocket\<close>: transform and send inside one \<^verbatim>\<open>try\<close>. Payloads are trees here, so
  \<^verbatim>\<open>JSON.stringify\<close> cannot fail; the transform is what may throw.
\<close>

definition sendToWebSocket :: "AnalyticsEvent \<Rightarrow> world \<Rightarrow> world completion" where
  "sendToWebSocket event w =
     (case webSocket (self w) of None \<Rightarrow> Normal w
      | Some s \<Rightarrow>
          if readyState (sockets w s) \<noteq> OPEN then Normal w
          else try_catch
                 (case make_payload (config_webSocket (self w)) event of
                    Inl e \<Rightarrow> Throw e w
                  | Inr p \<Rightarrow> Normal (w\<lparr>effects := effects w @ [WsSend s p]\<rparr>))
                 (\<lambda>e w'. Normal (console_error ''[Analytics WebSocket] Failed to send event:'' w')))"

text \<open>\<^verbatim>\<open>sendToSocketIO\<close>.\<close>

definition sendToSocketIO :: "AnalyticsEvent \<Rightarrow> world \<Rightarrow> world completion" where
  "sendToSocketIO event w =
     (case socketIO (self w) of None \<Rightarrow> Normal w
      | Some s \<Rightarrow>
          if \<not> io_connected w s then Normal w
          else try_catch
                 (case make_payload (config_webSocket (self w)) event of
                    Inl e \<Rightarrow> Throw e w
                  | Inr p \<Rightarrow>
                      Normal (w\<lparr>effects := effects w
                                @ [IoEmit s (handler_eventName (config_webSocket (self w))) p]\<rparr>))
                 (\<lambda>e w'. Normal (console_error ''[Analytics Socket.IO] Failed to emit event:'' w')))"

text \<open>
  \<^verbatim>\<open>sendEvent\<close> up to its \<^verbatim>\<open>await\<close>: the request is issued and left in flight. The
  part after the \<^verbatim>\<open>await\<close> is \<open>sendEvent_settled\<close>: \<^verbatim>\<open>fetch\<close> rejects on a network
  error and resolves on any HTTP response, whatever its status.
\<close>

definition sendEvent :: "AnalyticsEvent \<Rightarrow> world \<Rightarrow> world" where
  "sendEvent event w =
     (case config (self w) of None \<Rightarrow> w
      | Some c \<Rightarrow>
          if \<not> truthy_str (cfg_endpoint c) then w
          else w\<lparr>effects := effects w @ [HttpPost (the (cfg_endpoint c)) event],
                 inflight := Suc (inflight w)\<rparr>)"

definition sendEvent_settled :: "fetch_outcome \<Rightarrow> world \<Rightarrow> world" where
  "sendEvent_settled out w =
     (case out of Rejected \<Rightarrow> console_error ''Failed to send analytics event:'' w
      | Responded status \<Rightarrow> w)"

section \<open>The facade\<close>

text \<open>
  \<^verbatim>\<open>trackEvent(eventType, data)\<close>; \<open>d\<close> is the address of the caller's \<^verbatim>\<open>data\<close> object.
  The record is built and pushed first, with the metrics as they are on entry; then
  \<^verbatim>\<open>updateMetrics\<close> runs; then the sinks are served.
\<close>

definition trackEvent :: "string \<Rightarrow> addr \<Rightarrow> reads \<Rightarrow> world \<Rightarrow> world completion" where
  "trackEvent ty d r w =
     (case config (self w) of None \<Rightarrow> Normal w
      | Some c \<Rightarrow>
          if cfg_enabled c \<noteq> Some True then Normal w
          else
            let event = \<lparr>eventType = ty, timestamp = at_timestamp r,
                         ev_sessionId = sessionId (self w), ev_videoId = cfg_videoId c,
                         ev_userId = cfg_userId c,
                         data = spread (spread [] (objects w d)) (getQoEMetrics (at_metrics r) (self w))\<rparr>;
                w1 = w\<lparr>arrays := (arrays w)(events (self w) := arrays w (events (self w)) @ [event])\<rparr>;
                w2 = w1\<lparr>self := updateMetrics ty (at_update r) (self w1)\<rparr>
            in and_then
                 (if webSocket (self w2) \<noteq> None
                     \<and> readyState (sockets w2 (the (webSocket (self w2)))) = OPEN
                  then sendToWebSocket event w2 else Normal w2)
                 (\<lambda>w3. and_then
                    (if socketIO (self w3) \<noteq> None \<and> io_connected w3 (the (socketIO (self w3)))
                     then sendToSocketIO event w3 else Normal w3)
                    (\<lambda>w4. Normal (if truthy_str (cfg_endpoint c) then sendEvent event w4 else w4))))"

definition getConnectionInfo :: "browser \<Rightarrow> jsval" where
  "getConnectionInfo b =
     (case nav_connection b of None \<Rightarrow> JNull
      | Some (effectiveType, downlink, rtt, saveData) \<Rightarrow>
          JObj [(''effectiveType'', effectiveType), (''downlink'', downlink),
                (''rtt'', rtt), (''saveData'', saveData)])"

definition getSessionData :: "browser \<Rightarrow> obj" where
  "getSessionData b =
     [(''userAgent'', JStr (userAgent b)), (''platform'', JStr (platform b)),
      (''language'', JStr (language b)),
      (''screenResolution'', JStr (screen_width b @ ''x'' @ screen_height b)),
      (''viewport'', JStr (innerWidth b @ ''x'' @ innerHeight b)),
      (''connection'', getConnectionInfo b)]"

text \<open>
  \<^verbatim>\<open>initializeWebSocket\<close>: \<^verbatim>\<open>new WebSocket(url)\<close> throws on a URL the browser rejects
  (\<open>url_ok\<close>), which the surrounding \<^verbatim>\<open>try\<close> logs. The constructor calls it for a native
  handler only.
\<close>

definition hook :: "ws_id \<Rightarrow> world \<Rightarrow> world" where
  "hook s w = w\<lparr>sockets := (sockets w)(s := (sockets w s)\<lparr>hooked := True\<rparr>)\<rparr>"

definition initializeWebSocket :: "world \<Rightarrow> world" where
  "initializeWebSocket w0 =
     (let w = w0\<lparr>ws_inits := Suc (ws_inits w0)\<rparr> in
      case config_webSocket (self w) of
        Some (WebSocketHandler c) \<Rightarrow>
          (case ws_connection c of
             Url u \<Rightarrow>
               if url_ok w u
               then hook (Created (next_socket w))
                      (w\<lparr>sockets := (sockets w)(Created (next_socket w) :=
                                       \<lparr>readyState = CONNECTING, hooked = False\<rparr>),
                         next_socket := Suc (next_socket w),
                         self := (self w)\<lparr>webSocket := Some (Created (next_socket w))\<rparr>\<rparr>)
               else console_error ''[Analytics WebSocket] Failed to initialize:'' w
           | Instance \<Rightarrow> hook Adopted (w\<lparr>self := (self w)\<lparr>webSocket := Some Adopted\<rparr>\<rparr>))
      | _ \<Rightarrow> w)"

text \<open>The handlers installed on the socket; they close over the handler configuration.\<close>

definition ws_onopen :: "WebSocketAnalyticsHandler \<Rightarrow> world \<Rightarrow> world completion" where
  "ws_onopen c w = invoke (ws_onOpen c) w"

definition ws_onerror :: "WebSocketAnalyticsHandler \<Rightarrow> world \<Rightarrow> world completion" where
  "ws_onerror c w = invoke (ws_onError c) (console_error ''[Analytics WebSocket] Error:'' w)"

definition ws_onclose :: "WebSocketAnalyticsHandler \<Rightarrow> world \<Rightarrow> world completion" where
  "ws_onclose c w0 =
     and_then (invoke (ws_onClose c) w0)
       (\<lambda>w. if autoReconnect c \<noteq> Some False \<and> \<not> isDestroyed (self w)
            then let delay = (case reconnectDelay c of None \<Rightarrow> 3000
                              | Some d \<Rightarrow> if d = 0 then 3000 else d)
                 in Normal (w\<lparr>timers := timers w @ [(next_timer w, delay)],
                              next_timer := Suc (next_timer w),
                              self := (self w)\<lparr>wsReconnectTimeout := Some (next_timer w)\<rparr>\<rparr>)
            else Normal w)"

text \<open>
  \<^verbatim>\<open>initializeSocketIO\<close> up to its \<^verbatim>\<open>await\<close>, and the part after it. With a URL the
  client library is imported first, so \<^verbatim>\<open>this.socketIO\<close> is set only when the import
  has settled.
\<close>

definition initializeSocketIO :: "world \<Rightarrow> world" where
  "initializeSocketIO w =
     (case config_webSocket (self w) of
        Some (SocketIOHandler c) \<Rightarrow>
          (case io_connection c of
             Url u \<Rightarrow> w\<lparr>io_importing := True\<rparr>
           | Instance \<Rightarrow> w\<lparr>self := (self w)\<lparr>socketIO := Some IoAdopted\<rparr>,
                           io_hooked := (io_hooked w)(IoAdopted := True)\<rparr>)
      | _ \<Rightarrow> w)"

definition initializeSocketIO_imported :: "bool \<Rightarrow> world \<Rightarrow> world" where
  "initializeSocketIO_imported ok w0 =
     (let w = w0\<lparr>io_importing := False\<rparr> in
      if ok
      then w\<lparr>self := (self w)\<lparr>socketIO := Some IoCreated\<rparr>,
             io_connected := (io_connected w)(IoCreated := False),
             io_hooked := (io_hooked w)(IoCreated := True)\<rparr>
      else console_error ''[Analytics Socket.IO] Failed to initialize:'' w)"

definition generated_or :: "string option \<Rightarrow> string \<Rightarrow> string" where
  "generated_or sid fresh = (if truthy_str sid then the sid else fresh)"

text \<open>
  The constructor; \<open>fresh\<close> is what \<^verbatim>\<open>generateSessionId()\<close> would return and \<open>now\<close> the
  reading stored as \<^verbatim>\<open>sessionStartTime\<close>.
\<close>

definition constructor ::
  "AnalyticsConfig option \<Rightarrow> string \<Rightarrow> int \<Rightarrow> reads \<Rightarrow> browser \<Rightarrow> world \<Rightarrow> world completion" where
  "constructor cfg fresh now r b w0 =
     (let w1 = (alloc_array [] w0)
            \<lparr>self := \<lparr>config = cfg,
                      sessionId = generated_or (case cfg of None \<Rightarrow> None | Some c \<Rightarrow> cfg_sessionId c) fresh,
                      events = next_addr w0, sessionStartTime = now,
                      playbackStartTime = None, totalPlayTime = 0, totalBufferTime = 0,
                      bufferStartTime = None, rebufferCount = 0, seekCount = 0,
                      webSocket = None, socketIO = None, wsReconnectTimeout = None,
                      isDestroyed = False\<rparr>\<rparr>;
          w2 = (case config_webSocket (self w1) of None \<Rightarrow> w1
                | Some (SocketIOHandler c) \<Rightarrow> initializeSocketIO w1
                | Some (WebSocketHandler c) \<Rightarrow> initializeWebSocket w1)
      in if enabled (self w2)
         then trackEvent ''session_start'' (next_addr w2) r (alloc_obj (getSessionData b) w2)
         else Normal w2)"

text \<open>\<^verbatim>\<open>getEvents\<close> allocates the copy and returns its address.\<close>

definition getEvents :: "world \<Rightarrow> addr \<times> world" where
  "getEvents w = (next_addr w, alloc_array (arrays w (events (self w))) w)"

definition getMetrics :: "int \<Rightarrow> world \<Rightarrow> obj" where
  "getMetrics now w =
     spread (spread [(''sessionId'', JStr (sessionId (self w)))] (getQoEMetrics now (self w)))
       [(''eventCount'', JNum (of_nat (length (arrays w (events (self w))))))]"

text \<open>The blocks of \<^verbatim>\<open>destroy\<close>, then \<^verbatim>\<open>destroy\<close> itself.\<close>

definition clearTimeout :: "nat \<Rightarrow> world \<Rightarrow> world" where
  "clearTimeout h w = w\<lparr>timers := filter (\<lambda>t. fst t \<noteq> h) (timers w)\<rparr>"

definition destroy_timeout :: "world \<Rightarrow> world" where
  "destroy_timeout w =
     (case wsReconnectTimeout (self w) of None \<Rightarrow> w
      | Some h \<Rightarrow>
          if h = 0 then w
          else (clearTimeout h w)\<lparr>self := (self w)\<lparr>wsReconnectTimeout := None\<rparr>\<rparr>)"

definition ws_close :: "ws_id \<Rightarrow> world \<Rightarrow> world" where
  "ws_close s w =
     (if readyState (sockets w s) = CONNECTING \<or> readyState (sockets w s) = OPEN
      then w\<lparr>sockets := (sockets w)(s := (sockets w s)\<lparr>readyState := CLOSING\<rparr>)\<rparr>
      else w)"

definition destroy_webSocket :: "world \<Rightarrow> world" where
  "destroy_webSocket w =
     (case webSocket (self w) of None \<Rightarrow> w
      | Some s \<Rightarrow> (ws_close s w)\<lparr>self := (self w)\<lparr>webSocket := None\<rparr>\<rparr>)"

definition destroy_socketIO :: "world \<Rightarrow> world" where
  "destroy_socketIO w =
     (case socketIO (self w) of None \<Rightarrow> w
      | Some s \<Rightarrow> w\<lparr>io_hooked := (io_hooked w)(s := False),
                    io_connected := (io_connected w)(s := False),
                    self := (self w)\<lparr>socketIO := None\<rparr>\<rparr>)"

definition reset_events :: "world \<Rightarrow> world" where
  "reset_events w = (alloc_array [] w)\<lparr>self := (self w)\<lparr>events := next_addr w\<rparr>\<rparr>"

definition destroy :: "reads \<Rightarrow> browser \<Rightarrow> world \<Rightarrow> world completion" where
  "destroy r b w0 =
     (let w1 = w0\<lparr>self := (self w0)\<lparr>isDestroyed := True\<rparr>\<rparr> in
      and_then
        (if enabled (self w1)
         then trackEvent ''session_end'' (next_addr w1) r (alloc_obj (getSessionData b) w1)
         else Normal w1)
        (\<lambda>w2. Normal (reset_events (destroy_socketIO (destroy_webSocket (destroy_timeout w2))))))"

section \<open>Calls and events over time\<close>

text \<open>
  What can happen to an instance: its public methods are called, a socket fires an
  event, a timer fires, the import of the Socket.IO client settles, a request settles.
  A socket opens only while connecting and closes only once. An exception of a public
  method goes to its caller, one of an event handler is reported as uncaught.
\<close>

datatype call =
    TrackEvent string obj reads
  | Destroy reads browser
  | GetEvents
  | WsOpen ws_id
  | WsError ws_id
  | WsClose ws_id
  | TimerFires nat
  | IoImported bool
  | IoConnect io_id
  | IoDisconnect io_id
  | IoError io_id
  | FetchSettles fetch_outcome

definition report :: "world completion \<Rightarrow> world" where
  "report c = (case c of Normal w \<Rightarrow> w | Throw e w \<Rightarrow> w\<lparr>effects := effects w @ [Uncaught e]\<rparr>)"

definition set_readyState :: "ws_id \<Rightarrow> ready_state \<Rightarrow> world \<Rightarrow> world" where
  "set_readyState s st w = w\<lparr>sockets := (sockets w)(s := (sockets w s)\<lparr>readyState := st\<rparr>)\<rparr>"

definition dispatch ::
  "(WebSocketAnalyticsHandler \<Rightarrow> world \<Rightarrow> world completion) \<Rightarrow> ws_id \<Rightarrow> world \<Rightarrow> world" where
  "dispatch handler s w =
     (if hooked (sockets w s)
      then (case config_webSocket (self w) of
              Some (WebSocketHandler c) \<Rightarrow> report (handler c w)
            | _ \<Rightarrow> w)
      else w)"

definition io_dispatch :: "io_id \<Rightarrow> bool \<Rightarrow> callback option \<Rightarrow> world \<Rightarrow> world" where
  "io_dispatch s logged cb w =
     (if io_hooked w s
      then report (invoke cb (if logged then console_error ''[Analytics Socket.IO] Error:'' w else w))
      else w)"

definition io_config :: "world \<Rightarrow> SocketIOAnalyticsHandler option" where
  "io_config w = (case config_webSocket (self w) of Some (SocketIOHandler c) \<Rightarrow> Some c | _ \<Rightarrow> None)"

fun step :: "call \<Rightarrow> world \<Rightarrow> world" where
  "step (TrackEvent ty payload r) w = state_of (trackEvent ty (next_addr w) r (alloc_obj payload w))"
| "step (Destroy r b) w = state_of (destroy r b w)"
| "step GetEvents w = snd (getEvents w)"
| "step (WsOpen s) w =
     (if readyState (sockets w s) = CONNECTING
      then dispatch ws_onopen s (set_readyState s OPEN w) else w)"
| "step (WsError s) w =
     (if readyState (sockets w s) \<noteq> CLOSED then dispatch ws_onerror s w else w)"
| "step (WsClose s) w =
     (if readyState (sockets w s) \<noteq> CLOSED
      then dispatch ws_onclose s (set_readyState s CLOSED w) else w)"
| "step (TimerFires h) w =
     (if h \<in> fst ` set (timers w) then initializeWebSocket (clearTimeout h w) else w)"
| "step (IoImported ok) w = (if io_importing w then initializeSocketIO_imported ok w else w)"
| "step (IoConnect s) w =
     io_dispatch s False (case io_config w of None \<Rightarrow> None | Some c \<Rightarrow> io_onConnect c)
       (w\<lparr>io_connected := (io_connected w)(s := True)\<rparr>)"
| "step (IoDisconnect s) w =
     io_dispatch s False (case io_config w of None \<Rightarrow> None | Some c \<Rightarrow> io_onDisconnect c)
       (w\<lparr>io_connected := (io_connected w)(s := False)\<rparr>)"
| "step (IoError s) w =
     io_dispatch s True (case io_config w of None \<Rightarrow> None | Some c \<Rightarrow> io_onError c) w"
| "step (FetchSettles out) w =
     (if inflight w = 0 then w else sendEvent_settled out (w\<lparr>inflight := inflight w - 1\<rparr>))"

fun run :: "call list \<Rightarrow> world \<Rightarrow> world" where
  "run [] w = w"
| "run (c # cs) w = run cs (step c w)"

text \<open>
  The environment before an instance is constructed: an empty heap, no timer, no
  request, and the caller's own WebSocket and Socket.IO objects in the state given.
\<close>

definition blank :: Analytics where
  "blank = \<lparr>config = None, sessionId = [], events = 0, sessionStartTime = 0,
            playbackStartTime = None, totalPlayTime = 0, totalBufferTime = 0,
            bufferStartTime = None, rebufferCount = 0, seekCount = 0,
            webSocket = None, socketIO = None, wsReconnectTimeout = None,
            isDestroyed = False\<rparr>"

definition fresh_env :: "ready_state \<Rightarrow> bool \<Rightarrow> (string \<Rightarrow> bool) \<Rightarrow> world" where
  "fresh_env adopted_state adopted_connected ok =
     \<lparr>self = blank, arrays = (\<lambda>_. []), objects = (\<lambda>_. []), next_addr = 0,
      sockets = (\<lambda>_. \<lparr>readyState = adopted_state, hooked = False\<rparr>), next_socket = 0,
      url_ok = ok, io_connected = (\<lambda>_. adopted_connected), io_hooked = (\<lambda>_. False),
      io_importing = False, timers = [], next_timer = 1, inflight = 0, effects = [],
      ws_inits = 0\<rparr>"

section \<open>Notions used in the statements\<close>

text \<open>The record literal of \<^verbatim>\<open>trackEvent\<close>, and what each sink adds to the trace for it.\<close>

definition make_event :: "string \<Rightarrow> addr \<Rightarrow> reads \<Rightarrow> world \<Rightarrow> AnalyticsEvent" where
  "make_event ty d r w =
     \<lparr>eventType = ty, timestamp = at_timestamp r, ev_sessionId = sessionId (self w),
      ev_videoId = (case config (self w) of None \<Rightarrow> None | Some c \<Rightarrow> cfg_videoId c),
      ev_userId = (case config (self w) of None \<Rightarrow> None | Some c \<Rightarrow> cfg_userId c),
      data = spread (spread [] (objects w d)) (getQoEMetrics (at_metrics r) (self w))\<rparr>"

definition ws_fx :: "AnalyticsEvent \<Rightarrow> world \<Rightarrow> effect list" where
  "ws_fx event w =
     (case webSocket (self w) of None \<Rightarrow> []
      | Some s \<Rightarrow>
          if readyState (sockets w s) \<noteq> OPEN then []
          else (case make_payload (config_webSocket (self w)) event of
                  Inl e \<Rightarrow> [ConsoleError ''[Analytics WebSocket] Failed to send event:'']
                | Inr p \<Rightarrow> [WsSend s p]))"

definition io_fx :: "AnalyticsEvent \<Rightarrow> world \<Rightarrow> effect list" where
  "io_fx event w =
     (case socketIO (self w) of None \<Rightarrow> []
      | Some s \<Rightarrow>
          if \<not> io_connected w s then []
          else (case make_payload (config_webSocket (self w)) event of
                  Inl e \<Rightarrow> [ConsoleError ''[Analytics Socket.IO] Failed to emit event:'']
                | Inr p \<Rightarrow> [IoEmit s (handler_eventName (config_webSocket (self w))) p]))"

definition http_fx :: "AnalyticsEvent \<Rightarrow> world \<Rightarrow> effect list" where
  "http_fx event w =
     (case config (self w) of None \<Rightarrow> []
      | Some c \<Rightarrow> if truthy_str (cfg_endpoint c) then [HttpPost (the (cfg_endpoint c)) event] else [])"

fun is_delivery :: "effect \<Rightarrow> bool" where
  "is_delivery (HttpPost u e) = True"
| "is_delivery (WsSend s p) = True"
| "is_delivery (IoEmit s n p) = True"
| "is_delivery _ = False"

fun is_post :: "effect \<Rightarrow> bool" where
  "is_post (HttpPost u e) = True"
| "is_post _ = False"

fun is_console_error :: "effect \<Rightarrow> bool" where
  "is_console_error (ConsoleError m) = True"
| "is_console_error _ = False"

text \<open>The stored sequence of records, and an in-place change of the array at an address.\<close>

definition stored :: "world \<Rightarrow> AnalyticsEvent list" where
  "stored w = arrays w (events (self w))"

definition mutate :: "addr \<Rightarrow> (AnalyticsEvent list \<Rightarrow> AnalyticsEvent list) \<Rightarrow> world \<Rightarrow> world" where
  "mutate a f w = w\<lparr>arrays := (arrays w)(a := f (arrays w a))\<rparr>"

text \<open>The clock readings a call takes, in order, and the notifications it tracks.\<close>

definition reads_list :: "reads \<Rightarrow> int list" where
  "reads_list r = [at_timestamp r, at_metrics r, at_update r]"

fun call_reads :: "call \<Rightarrow> int list" where
  "call_reads (TrackEvent ty p r) = reads_list r"
| "call_reads (Destroy r b) = reads_list r"
| "call_reads _ = []"

fun tracks :: "string \<Rightarrow> call \<Rightarrow> bool" where
  "tracks ty (TrackEvent ty' p r) = (ty' = ty)"
| "tracks ty _ = False"

definition tracked :: "string \<Rightarrow> call list \<Rightarrow> nat" where
  "tracked ty cs = length (filter (tracks ty) cs)"


text \<open>The instance as constructed in a fresh environment, after any later calls and events.\<close>

definition session ::
  "AnalyticsConfig option \<Rightarrow> string \<Rightarrow> int \<Rightarrow> reads \<Rightarrow> browser \<Rightarrow> ready_state \<Rightarrow> bool
     \<Rightarrow> (string \<Rightarrow> bool) \<Rightarrow> call list \<Rightarrow> world" where
  "session cfg fresh now r b st conn ok cs =
     run cs (state_of (constructor cfg fresh now r b (fresh_env st conn ok)))"

text \<open>
  Invariants of the reconnection: a pending timer is the tracked one, nothing the
  instance listens to is open while a timer is pending, and at most one socket it
  listens to has not closed.
\<close>

definition live :: "world \<Rightarrow> ws_id \<Rightarrow> bool" where
  "live w s = (hooked (sockets w s) \<and> readyState (sockets w s) \<noteq> CLOSED)"

definition coherent :: "world \<Rightarrow> bool" where
  "coherent w =
     ((timers w = [] \<or> (\<exists>h d. timers w = [(h, d)] \<and> wsReconnectTimeout (self w) = Some h \<and> h \<noteq> 0))
      \<and> (timers w \<noteq> [] \<longrightarrow> (\<forall>s. \<not> live w s))
      \<and> (\<forall>s s'. live w s \<and> live w s' \<longrightarrow> s = s')
      \<and> next_timer w \<noteq> 0
      \<and> (\<forall>s. hooked (sockets w s) \<longrightarrow> (\<exists>c. config_webSocket (self w) = Some (WebSocketHandler c)))
      \<and> (\<forall>s. webSocket (self w) = Some s \<longrightarrow> hooked (sockets w s))
      \<and> events (self w) < next_addr w)"

definition torn_down :: "world \<Rightarrow> bool" where
  "torn_down w = (isDestroyed (self w) \<and> timers w = [] \<and> webSocket (self w) = None)"

text \<open>The delay \<^verbatim>\<open>wsConfig.reconnectDelay || 3000\<close>, and the state with the reconnect scheduled.\<close>

definition reconnect_delay :: "WebSocketAnalyticsHandler \<Rightarrow> int" where
  "reconnect_delay c = (case reconnectDelay c of None \<Rightarrow> 3000 | Some d \<Rightarrow> if d = 0 then 3000 else d)"

definition scheduled :: "int \<Rightarrow> world \<Rightarrow> world" where
  "scheduled d w = w\<lparr>timers := timers w @ [(next_timer w, d)], next_timer := Suc (next_timer w),
                      self := (self w)\<lparr>wsReconnectTimeout := Some (next_timer w)\<rparr>\<rparr>"

definition clock_ok :: "int \<Rightarrow> Analytics \<Rightarrow> bool" where
  "clock_ok now a =
     (0 \<le> totalPlayTime a \<and> 0 \<le> totalBufferTime a
      \<and> (\<forall>t. playbackStartTime a = Some t \<longrightarrow> t \<le> now)
      \<and> (\<forall>t. bufferStartTime a = Some t \<longrightarrow> t \<le> now))"

text \<open>
  Parts of the constructor and of \<^verbatim>\<open>destroy\<close>: the instance with its fields initialised,
  the transport set up, and the state after the \<^verbatim>\<open>session_end\<close> record of \<^verbatim>\<open>destroy\<close>.
\<close>

definition born :: "AnalyticsConfig option \<Rightarrow> string \<Rightarrow> int \<Rightarrow> world \<Rightarrow> world" where
  "born cfg fresh now w0 =
     (alloc_array [] w0)
       \<lparr>self := \<lparr>config = cfg,
                 sessionId = generated_or (case cfg of None \<Rightarrow> None | Some c \<Rightarrow> cfg_sessionId c) fresh,
                 events = next_addr w0, sessionStartTime = now,
                 playbackStartTime = None, totalPlayTime = 0, totalBufferTime = 0,
                 bufferStartTime = None, rebufferCount = 0, seekCount = 0,
                 webSocket = None, socketIO = None, wsReconnectTimeout = None,
                 isDestroyed = False\<rparr>\<rparr>"

definition wired :: "world \<Rightarrow> world" where
  "wired w1 = (case config_webSocket (self w1) of None \<Rightarrow> w1
                | Some (SocketIOHandler c) \<Rightarrow> initializeSocketIO w1
                | Some (WebSocketHandler c) \<Rightarrow> initializeWebSocket w1)"

definition session_end :: "reads \<Rightarrow> browser \<Rightarrow> world \<Rightarrow> world" where
  "session_end r b w =
     (if enabled (self w)
      then state_of (trackEvent ''session_end'' (next_addr w) r
             (alloc_obj (getSessionData b) (w\<lparr>self := (self w)\<lparr>isDestroyed := True\<rparr>\<rparr>)))
      else w\<lparr>self := (self w)\<lparr>isDestroyed := True\<rparr>\<rparr>)"

text \<open>The fields of the instance that belong to the session and its accumulator.\<close>

definition acc ::
  "Analytics \<Rightarrow> AnalyticsConfig option \<times> string \<times> int \<times> int option \<times> int \<times> int \<times> int option \<times> nat \<times> nat" where
  "acc a = (config a, sessionId a, sessionStartTime a, playbackStartTime a, totalPlayTime a,
            totalBufferTime a, bufferStartTime a, rebufferCount a, seekCount a)"

section \<open>Example inputs\<close>

text \<open>
  An enabled instance with a request endpoint, built in a fresh environment at clock
  reading 1000, and calls whose three clock readings coincide.
\<close>

definition reads_at :: "int \<Rightarrow> reads" where
  "reads_at t = \<lparr>at_timestamp = t, at_metrics = t, at_update = t\<rparr>"

definition demo_browser :: browser where
  "demo_browser = \<lparr>userAgent = ''Mozilla/5.0'', platform = ''Linux'', language = ''en'',
     screen_width = ''1920'', screen_height = ''1080'', innerWidth = ''1280'', innerHeight = ''720'',
     nav_connection = None\<rparr>"

definition demo_config :: AnalyticsConfig where
  "demo_config = \<lparr>cfg_enabled = Some True, cfg_endpoint = Some ''https://collector.example/events'',
     cfg_webSocket = None, cfg_sessionId = Some ''s1'', cfg_userId = None, cfg_videoId = Some ''v1''\<rparr>"

definition demo_world :: world where
  "demo_world = state_of (constructor (Some demo_config) ''session_0'' 1000 (reads_at 1000) demo_browser
                   (fresh_env CLOSED False (\<lambda>u. True)))"

definition demo_payload :: obj where
  "demo_payload = [(''seekCount'', JNum 77), (''position'', JNum 12)]"

text \<open>
  The same instance with a native WebSocket sink whose transform always throws, after
  the given calls and events; and the first instance after \<^verbatim>\<open>destroy()\<close> at clock
  reading 2000.
\<close>

definition failing_transform :: transform where
  "failing_transform ev = Inl (Exn ''transform failed'')"

definition demo_ws_handler :: WebSocketAnalyticsHandler where
  "demo_ws_handler = \<lparr>ws_connection = Url ''wss://collector.example/live'',
     ws_transform = Some failing_transform, ws_onError = None, ws_onOpen = None, ws_onClose = None,
     autoReconnect = None, reconnectDelay = None\<rparr>"

definition demo_ws_config :: AnalyticsConfig where
  "demo_ws_config = demo_config\<lparr>cfg_webSocket := Some (WebSocketHandler demo_ws_handler)\<rparr>"

definition demo_ws_world :: "call list \<Rightarrow> world" where
  "demo_ws_world cs = session (Some demo_ws_config) ''session_0'' 1000 (reads_at 1000) demo_browser
                        CLOSED False (\<lambda>u. True) cs"

definition demo_destroyed :: world where
  "demo_destroyed = state_of (destroy (reads_at 2000) demo_browser demo_world)"

text \<open>
  An instance with a native WebSocket sink that reconnects after 500 ms, and a short
  playback: play at 2000, a stall from 3000 to 3500, pause at 7000.
\<close>

definition demo_quiet_handler :: WebSocketAnalyticsHandler where
  "demo_quiet_handler = demo_ws_handler\<lparr>ws_transform := None, reconnectDelay := Some 500\<rparr>"

definition demo_reconnecting :: "call list \<Rightarrow> world" where
  "demo_reconnecting cs =
     session (Some (demo_config\<lparr>cfg_webSocket := Some (WebSocketHandler demo_quiet_handler)\<rparr>))
       ''session_0'' 1000 (reads_at 1000) demo_browser CLOSED False (\<lambda>u. True) cs"

definition demo_playback :: "call list" where
  "demo_playback = [TrackEvent ''play'' [] (reads_at 2000), TrackEvent ''buffering_start'' [] (reads_at 3000),
                    TrackEvent ''buffering_end'' [] (reads_at 3500), TrackEvent ''pause'' [] (reads_at 7000)]"

text \<open>
  A playback of 2000 ms with a stall of 1001 ms, the quotient 0.5005 lying halfway
  between two multiples of 0.001; and one of 2000 ms during which the clock is set
  back by 500 ms between the start and the end of a stall.
\<close>

definition demo_tie_playback :: "call list" where
  "demo_tie_playback = [TrackEvent ''play'' [] (reads_at 2000), TrackEvent ''buffering_start'' [] (reads_at 2500),
                        TrackEvent ''buffering_end'' [] (reads_at 3501), TrackEvent ''pause'' [] (reads_at 4000)]"

definition demo_clock_back :: "call list" where
  "demo_clock_back = [TrackEvent ''play'' [] (reads_at 2000), TrackEvent ''buffering_start'' [] (reads_at 3000),
                      TrackEvent ''buffering_end'' [] (reads_at 2500), TrackEvent ''pause'' [] (reads_at 4000)]"

text \<open>
  The reconnecting sink with an \<^verbatim>\<open>onClose\<close> callback that throws, and with a
  \<^verbatim>\<open>reconnectDelay\<close> of 0; and an instance with the given sink whose socket has
  opened, and one whose socket has opened and then closed.
\<close>

definition demo_throwing_handler :: WebSocketAnalyticsHandler where
  "demo_throwing_handler = demo_quiet_handler\<lparr>ws_onClose := Some (Some (Exn ''onClose failed''))\<rparr>"

definition demo_zero_delay_handler :: WebSocketAnalyticsHandler where
  "demo_zero_delay_handler = demo_quiet_handler\<lparr>reconnectDelay := Some 0\<rparr>"

definition demo_opened :: "WebSocketAnalyticsHandler \<Rightarrow> world" where
  "demo_opened h =
     session (Some (demo_config\<lparr>cfg_webSocket := Some (WebSocketHandler h)\<rparr>))
       ''session_0'' 1000 (reads_at 1000) demo_browser CLOSED False (\<lambda>u. True) [WsOpen (Created 0)]"

definition demo_closed :: "WebSocketAnalyticsHandler \<Rightarrow> world" where
  "demo_closed h =
     session (Some (demo_config\<lparr>cfg_webSocket := Some (WebSocketHandler h)\<rparr>))
       ''session_0'' 1000 (reads_at 1000) demo_browser CLOSED False (\<lambda>u. True)
       [WsOpen (Created 0), WsClose (Created 0)]"

section \<open>Basic facts\<close>

subsection \<open>Double arithmetic\<close>

text \<open>
  \<open>expo x\<close> is the binary exponent of \<open>x\<close>; \<open>fl\<close> keeps 0 and the sign, and its relative
  error is at most \<open>2 ^ -53\<close>.
\<close>

lemma round_even_near: "\<bar>of_int (round_even y) - y\<bar> \<le> 1 / 2"
proof -
  have "of_int \<lfloor>y\<rfloor> \<le> y" "y < of_int \<lfloor>y\<rfloor> + 1" by linarith+
  then show ?thesis
    by (auto simp: round_even_def Let_def)
qed

lemma round_even_sign: "0 \<le> y \<Longrightarrow> 0 \<le> round_even y" "y \<le> 0 \<Longrightarrow> round_even y \<le> 0"
proof -
  show "0 \<le> y \<Longrightarrow> 0 \<le> round_even y"
    by (auto simp: round_even_def Let_def)
  assume y: "y \<le> 0"
  show "round_even y \<le> 0"
  proof (cases "y = 0")
    case True
    then show ?thesis by (simp add: round_even_def Let_def)
  next
    case False
    with y have "\<lfloor>y\<rfloor> \<le> -1" by (simp add: floor_le_iff)
    then show ?thesis by (auto simp: round_even_def Let_def)
  qed
qed

lemma round_even_int [simp]: "round_even (of_int m) = m"
  by (simp add: round_even_def)

lemma expo_bounds:
  assumes "x \<noteq> 0"
  shows "2 powi expo x \<le> \<bar>x\<bar>" "\<bar>x\<bar> < 2 powi (expo x + 1)"
proof -
  obtain p q where pq: "quotient_of \<bar>x\<bar> = (p, q)" by (cases "quotient_of \<bar>x\<bar>")
  have q: "0 < q" using quotient_of_denom_pos[OF pq] .
  have xe: "\<bar>x\<bar> = of_int p / of_int q" using quotient_of_div[OF pq] .
  have "0 < \<bar>x\<bar>" using assms by simp
  then have p: "0 < p" unfolding xe using q by (simp add: zero_less_divide_iff)
  define a where "a = bitlen p"
  define b where "b = bitlen q"
  have a1: "1 \<le> a" and b1: "1 \<le> b"
    using p q bitlen_eq_zero_iff[of p] bitlen_eq_zero_iff[of q] bitlen_nonneg[of p] bitlen_nonneg[of q]
    by (auto simp: a_def b_def)
  have pa: "(2::rat) powi (a - 1) \<le> of_int p" "of_int p < (2::rat) powi a"
  proof -
    have "2 ^ nat (a - 1) \<le> p" "p < 2 ^ nat a" using bitlen_bounds[OF p] by (simp_all add: a_def)
    then have "(of_int (2 ^ nat (a - 1)) :: rat) \<le> of_int p" "(of_int p :: rat) < of_int (2 ^ nat a)"
      by (simp_all only: of_int_le_iff of_int_less_iff)
    then show "(2::rat) powi (a - 1) \<le> of_int p" "of_int p < (2::rat) powi a"
      using a1 by (simp_all add: power_int_def power2_eq_square)
  qed
  have qb: "(2::rat) powi (b - 1) \<le> of_int q" "of_int q < (2::rat) powi b"
  proof -
    have "2 ^ nat (b - 1) \<le> q" "q < 2 ^ nat b" using bitlen_bounds[OF q] by (simp_all add: b_def)
    then have "(of_int (2 ^ nat (b - 1)) :: rat) \<le> of_int q" "(of_int q :: rat) < of_int (2 ^ nat b)"
      by (simp_all only: of_int_le_iff of_int_less_iff)
    then show "(2::rat) powi (b - 1) \<le> of_int q" "of_int q < (2::rat) powi b"
      using b1 by (simp_all add: power_int_def power2_eq_square)
  qed
  have qpos: "(0::rat) < of_int q" using q by simp
  have lo: "(2::rat) powi (a - b - 1) < \<bar>x\<bar>"
  proof -
    have "(2::rat) powi (a - b - 1) * of_int q < 2 powi (a - b - 1) * 2 powi b"
      using qb(2) by (simp add: mult_strict_left_mono)
    also have "\<dots> = 2 powi (a - 1)" by (simp add: power_int_add[symmetric])
    also have "\<dots> \<le> of_int p" by (rule pa(1))
    finally show ?thesis unfolding xe using qpos by (simp add: pos_less_divide_eq)
  qed
  have hi: "\<bar>x\<bar> < (2::rat) powi (a - b + 1)"
  proof -
    have "of_int p < (2::rat) powi a" by (rule pa(2))
    also have "\<dots> = 2 powi (a - b + 1) * 2 powi (b - 1)" by (simp add: power_int_add[symmetric])
    also have "\<dots> \<le> 2 powi (a - b + 1) * of_int q"
      using qb(1) by (simp add: mult_left_mono)
    finally show ?thesis unfolding xe using qpos by (simp add: pos_divide_less_eq)
  qed
  have e: "expo x = (if 2 powi (a - b) \<le> \<bar>x\<bar> then a - b else a - b - 1)"
    by (simp add: expo_def pq a_def b_def Let_def)
  show "2 powi expo x \<le> \<bar>x\<bar>" unfolding e using lo by auto
  show "\<bar>x\<bar> < 2 powi (expo x + 1)" unfolding e using hi by auto
qed

lemma fl_zero [simp]: "fl 0 = 0"
  by (simp add: fl_def)

lemma pow2_pos [simp]: "(0::rat) < 2 powi e"
  by (simp add: zero_less_power_int)

lemma fl_sign: "0 \<le> x \<Longrightarrow> 0 \<le> fl x" "x \<le> 0 \<Longrightarrow> fl x \<le> 0"
proof -
  show "0 \<le> x \<Longrightarrow> 0 \<le> fl x"
  proof -
    assume "0 \<le> x"
    then have "0 \<le> x * 2 powi (52 - expo x)"
      by (simp add: zero_le_mult_iff less_imp_le)
    then have "0 \<le> round_even (x * 2 powi (52 - expo x))" by (rule round_even_sign(1))
    then show "0 \<le> fl x"
      by (simp add: fl_def zero_le_mult_iff less_imp_le)
  qed
  assume "x \<le> 0"
  then have "x * 2 powi (52 - expo x) \<le> 0"
    by (simp add: mult_le_0_iff less_imp_le)
  then have "round_even (x * 2 powi (52 - expo x)) \<le> 0" by (rule round_even_sign(2))
  then show "fl x \<le> 0"
    by (simp add: fl_def mult_le_0_iff less_imp_le)
qed

lemma fl_error: "\<bar>fl x - x\<bar> \<le> \<bar>x\<bar> / 2 ^ 53"
proof (cases "x = 0")
  case True
  then show ?thesis by simp
next
  case False
  define e where "e = expo x"
  define s where "s = x * 2 powi (52 - e)"
  have x: "x = s * 2 powi (e - 52)"
    by (simp add: s_def power_int_add[symmetric] mult.assoc)
  have "fl x = of_int (round_even s) * 2 powi (e - 52)"
    using False by (simp add: fl_def e_def s_def)
  then have "fl x - x = (of_int (round_even s) - s) * 2 powi (e - 52)"
    using x by (simp add: algebra_simps)
  then have "\<bar>fl x - x\<bar> = \<bar>of_int (round_even s) - s\<bar> * 2 powi (e - 52)"
    by (simp add: abs_mult)
  also have "\<dots> \<le> (1 / 2) * 2 powi (e - 52)"
    using round_even_near[of s] by (simp add: mult_right_mono less_imp_le)
  also have "\<dots> = 2 powi e / 2 ^ 53"
    by (simp add: power_int_diff)
  also have "\<dots> \<le> \<bar>x\<bar> / 2 ^ 53"
    using expo_bounds(1)[OF False] by (simp add: e_def divide_right_mono)
  finally show ?thesis .
qed

text \<open>A number with a mantissa of 53 bits is a double, and \<open>fl\<close> returns it unchanged.\<close>

lemma expo_unique:
  assumes "2 powi e \<le> \<bar>x\<bar>" "\<bar>x\<bar> < 2 powi (e + 1)"
  shows "expo x = e"
proof -
  have nz: "x \<noteq> 0"
  proof
    assume "x = 0"
    then have "(2::rat) powi e \<le> 0" using assms(1) by simp
    then show False using pow2_pos[of e] by linarith
  qed
  note b = expo_bounds[OF nz]
  have "(2::rat) powi e < 2 powi (expo x + 1)" using assms(1) b(2) by linarith
  then have 1: "e < expo x + 1"
    using power_int_increasing[of "expo x + 1" e "2::rat"] by (cases "e < expo x + 1") auto
  have "(2::rat) powi expo x < 2 powi (e + 1)" using assms(2) b(1) by linarith
  then have 2: "expo x < e + 1"
    using power_int_increasing[of "e + 1" "expo x" "2::rat"] by (cases "expo x < e + 1") auto
  from 1 2 show ?thesis by simp
qed

lemma fl_exact:
  assumes "2 powi e \<le> \<bar>x\<bar>" "\<bar>x\<bar> < 2 powi (e + 1)" "x * 2 powi (52 - e) = of_int m"
  shows "fl x = x"
proof -
  have nz: "x \<noteq> 0"
  proof
    assume "x = 0"
    then have "(2::rat) powi e \<le> 0" using assms(1) by simp
    then show False using pow2_pos[of e] by linarith
  qed
  have "fl x = of_int m * 2 powi (e - 52)"
    using nz by (simp add: fl_def expo_unique[OF assms(1,2)] assms(3))
  also have "\<dots> = x * (2 powi (52 - e) * 2 powi (e - 52))"
    by (simp add: assms(3)[symmetric] mult.assoc)
  also have "\<dots> = x" by (simp add: power_int_add[symmetric])
  finally show ?thesis .
qed

text \<open>
  \<^verbatim>\<open>Math.round(ratio * 1000) / 1000\<close> keeps the sign of the ratio, and from the exact
  quotient \<open>x\<close> it is at most 0.0005 away, up to the rounding of the three operations.
\<close>

lemma floor_half: "\<lfloor>(1 / 2)::rat\<rfloor> = 0"
  by (rule floor_unique) simp_all

lemma Math_round_zero [simp]: "Math_round 0 = 0"
  by (simp add: Math_round_def floor_half)

lemma Math_round_half: "\<bar>of_int (Math_round p) - p\<bar> \<le> 1 / 2"
proof -
  have "of_int \<lfloor>p + 1 / 2\<rfloor> \<le> p + 1 / 2" "p + 1 / 2 < of_int \<lfloor>p + 1 / 2\<rfloor> + 1" by linarith+
  then show ?thesis unfolding Math_round_def by linarith
qed

lemma Math_round_sign: "0 \<le> p \<Longrightarrow> 0 \<le> Math_round p"
  by (simp add: Math_round_def)

lemma rounded_sign:
  assumes "0 \<le> r"
  shows "0 \<le> fl (of_int (Math_round (fl (r * 1000))) / 1000)"
proof -
  have "0 \<le> fl (r * 1000)" using assms by (intro fl_sign(1)) simp
  then have "0 \<le> Math_round (fl (r * 1000))" by (rule Math_round_sign)
  then show ?thesis by (intro fl_sign(1)) simp
qed

lemma rounded_near:
  fixes x :: rat
  defines "k \<equiv> Math_round (fl (fl x * 1000))"
  shows "\<bar>of_int k / 1000 - x\<bar> \<le> 1 / 2000 + \<bar>x\<bar> / 2 ^ 51"
    and "\<bar>fl (of_int k / 1000) - x\<bar> \<le> 1 / 2000 + (\<bar>x\<bar> + 1) / 2 ^ 50"
proof -
  define r where "r = fl x"
  define p where "p = fl (r * 1000)"
  define u where "u = \<bar>x\<bar> / 2 ^ 53"
  define y where "y = (of_int k :: rat) / 1000"
  have u0: "0 \<le> u" by (simp add: u_def)
  have ux: "u \<le> \<bar>x\<bar>" unfolding u_def by (simp add: field_simps)
  have 1: "\<bar>r - x\<bar> \<le> u" unfolding r_def u_def by (rule fl_error)
  have r2: "\<bar>r\<bar> \<le> 2 * \<bar>x\<bar>" using 1 ux by linarith
  have "\<bar>p - r * 1000\<bar> \<le> \<bar>r * 1000\<bar> / 2 ^ 53" unfolding p_def by (rule fl_error)
  also have "\<bar>r * 1000\<bar> / 2 ^ 53 = 1000 * (\<bar>r\<bar> / 2 ^ 53)" by (simp add: abs_mult)
  also have "\<dots> \<le> 1000 * ((2 * \<bar>x\<bar>) / 2 ^ 53)"
    using r2 by (intro mult_left_mono divide_right_mono) simp_all
  also have "\<dots> = 2000 * u" by (simp add: u_def)
  finally have 2: "\<bar>p - r * 1000\<bar> \<le> 2000 * u" .
  have 3: "\<bar>of_int k - p\<bar> \<le> 1 / 2" unfolding k_def p_def r_def by (rule Math_round_half)
  have ky: "of_int k = y * 1000" by (simp add: y_def)
  have "\<bar>y * 1000 - x * 1000\<bar> \<le> 1 / 2 + 3000 * u"
    using 1 2 3 unfolding ky by linarith
  then have 4: "\<bar>y - x\<bar> \<le> 1 / 2000 + 3 * u" by linarith
  have u4: "4 * u = \<bar>x\<bar> / 2 ^ 51" by (simp add: u_def)
  show "\<bar>of_int k / 1000 - x\<bar> \<le> 1 / 2000 + \<bar>x\<bar> / 2 ^ 51"
    unfolding y_def[symmetric] u4[symmetric] using 4 u0 by linarith
  have "4 * u \<le> \<bar>x\<bar>" unfolding u_def by (simp add: field_simps)
  then have 5: "\<bar>y\<bar> \<le> 2 * \<bar>x\<bar> + 1" using 4 by linarith
  have "\<bar>fl y - y\<bar> \<le> \<bar>y\<bar> / 2 ^ 53" by (rule fl_error)
  also have "\<dots> \<le> (2 * \<bar>x\<bar> + 1) / 2 ^ 53" using 5 by (intro divide_right_mono) simp_all
  also have "\<dots> = 2 * u + 1 / 2 ^ 53" by (simp add: u_def add_divide_distrib)
  finally have 6: "\<bar>fl y - y\<bar> \<le> 2 * u + 1 / 2 ^ 53" .
  have u8: "(\<bar>x\<bar> + 1) / 2 ^ 50 = 8 * u + 8 * (1 / 2 ^ 53)" by (simp add: u_def add_divide_distrib)
  have "(0::rat) \<le> 1 / 2 ^ 53" by simp
  then show "\<bar>fl (of_int k / 1000) - x\<bar> \<le> 1 / 2000 + (\<bar>x\<bar> + 1) / 2 ^ 50"
    unfolding y_def[symmetric] u8 using 4 6 u0 by linarith
qed


subsection \<open>Completions and sinks\<close>

text \<open>Each socket sink catches what its transform throws, so it always completes normally.\<close>

lemma and_then_simps [simp]:
  "and_then (Normal w) f = f w" "and_then (Throw e w) f = Throw e w"
  by (simp_all add: and_then_def)

lemma try_catch_simps [simp]:
  "try_catch (Normal w) h = Normal w" "try_catch (Throw e w) h = h e w"
  by (simp_all add: try_catch_def)

lemma state_of_simps [simp]: "state_of (Normal w) = w" "state_of (Throw e w) = w"
  by (simp_all add: state_of_def)

lemma report_Normal [simp]: "report (Normal w) = w"
  by (simp add: report_def)

lemma sendToWebSocket_eq: "sendToWebSocket ev w = Normal (w\<lparr>effects := effects w @ ws_fx ev w\<rparr>)"
  by (simp add: sendToWebSocket_def ws_fx_def console_error_def split: option.splits sum.splits)

lemma sendToSocketIO_eq: "sendToSocketIO ev w = Normal (w\<lparr>effects := effects w @ io_fx ev w\<rparr>)"
  by (simp add: sendToSocketIO_def io_fx_def console_error_def split: option.splits sum.splits)

lemma ws_fx_Nil: "webSocket (self w) = None \<or> readyState (sockets w (the (webSocket (self w)))) \<noteq> OPEN \<Longrightarrow> ws_fx ev w = []"
  by (auto simp: ws_fx_def split: option.splits)

lemma io_fx_Nil: "socketIO (self w) = None \<or> \<not> io_connected w (the (socketIO (self w))) \<Longrightarrow> io_fx ev w = []"
  by (auto simp: io_fx_def split: option.splits)

subsection \<open>What \<^verbatim>\<open>trackEvent\<close> does\<close>

text \<open>
  On an enabled instance \<^verbatim>\<open>trackEvent\<close> appends the record, folds the notification and
  adds the sinks' effects; it touches nothing else.
\<close>

lemma updateMetrics_frame [simp]:
  "config (updateMetrics ty t a) = config a"
  "sessionId (updateMetrics ty t a) = sessionId a"
  "events (updateMetrics ty t a) = events a"
  "sessionStartTime (updateMetrics ty t a) = sessionStartTime a"
  "webSocket (updateMetrics ty t a) = webSocket a"
  "socketIO (updateMetrics ty t a) = socketIO a"
  "wsReconnectTimeout (updateMetrics ty t a) = wsReconnectTimeout a"
  "isDestroyed (updateMetrics ty t a) = isDestroyed a"
  by (simp_all add: updateMetrics_def)

lemma trackEvent_disabled: "\<not> enabled (self w) \<Longrightarrow> trackEvent ty d r w = Normal w"
  by (simp add: trackEvent_def enabled_def split: option.splits)

lemma sendEvent_eq: "sendEvent ev w = w\<lparr>effects := effects w @ http_fx ev w, inflight := inflight w + length (http_fx ev w)\<rparr>"
  by (simp add: sendEvent_def http_fx_def split: option.splits)

lemma http_fx_Nil: "config (self w) = Some c \<Longrightarrow> \<not> truthy_str (cfg_endpoint c) \<Longrightarrow> http_fx ev w = []"
  by (simp add: http_fx_def)

lemma ws_fx_cong:
  "webSocket (self w') = webSocket (self w) \<Longrightarrow> sockets w' = sockets w
   \<Longrightarrow> config (self w') = config (self w) \<Longrightarrow> ws_fx ev w' = ws_fx ev w"
  by (simp add: ws_fx_def config_webSocket_def cong: option.case_cong sum.case_cong if_cong)

lemma io_fx_cong:
  "socketIO (self w') = socketIO (self w) \<Longrightarrow> io_connected w' = io_connected w
   \<Longrightarrow> config (self w') = config (self w) \<Longrightarrow> io_fx ev w' = io_fx ev w"
  by (simp add: io_fx_def config_webSocket_def cong: option.case_cong sum.case_cong if_cong)

lemma http_fx_cong: "config (self w') = config (self w) \<Longrightarrow> http_fx ev w' = http_fx ev w"
  by (simp add: http_fx_def)

lemma trackEvent_enabled:
  assumes "enabled (self w)"
  shows "trackEvent ty d r w =
     Normal (w\<lparr>arrays := (arrays w)(events (self w) := stored w @ [make_event ty d r w]),
               self := updateMetrics ty (at_update r) (self w),
               effects := effects w @ ws_fx (make_event ty d r w) w @ io_fx (make_event ty d r w) w
                          @ http_fx (make_event ty d r w) w,
               inflight := inflight w + length (http_fx (make_event ty d r w) w)\<rparr>)"
proof -
  from assms obtain c where c: "config (self w) = Some c" "cfg_enabled c = Some True"
    by (auto simp: enabled_def split: option.splits)
  define ev where "ev = make_event ty d r w"
  define w2 where "w2 = w\<lparr>arrays := (arrays w)(events (self w) := arrays w (events (self w)) @ [ev]),
        self := updateMetrics ty (at_update r) (self (w\<lparr>arrays := (arrays w)(events (self w) := arrays w (events (self w)) @ [ev])\<rparr>))\<rparr>"
  have ev: "\<lparr>eventType = ty, timestamp = at_timestamp r,
                         ev_sessionId = sessionId (self w), ev_videoId = cfg_videoId c,
                         ev_userId = cfg_userId c,
                         data = spread (spread [] (objects w d)) (getQoEMetrics (at_metrics r) (self w))\<rparr> = ev"
    using c by (simp add: make_event_def ev_def)
  have a: "(if webSocket (self w2) \<noteq> None \<and> readyState (sockets w2 (the (webSocket (self w2)))) = OPEN
            then sendToWebSocket ev w2 else Normal w2) = Normal (w2\<lparr>effects := effects w2 @ ws_fx ev w2\<rparr>)"
    using ws_fx_Nil[of w2 ev] by (auto simp: sendToWebSocket_eq)
  have b: "\<And>w3. (if socketIO (self w3) \<noteq> None \<and> io_connected w3 (the (socketIO (self w3)))
            then sendToSocketIO ev w3 else Normal w3) = Normal (w3\<lparr>effects := effects w3 @ io_fx ev w3\<rparr>)"
    subgoal for w3 using io_fx_Nil[of w3 ev] by (auto simp: sendToSocketIO_eq) done
  have cc: "\<And>w4. config (self w4) = Some c \<Longrightarrow> (if truthy_str (cfg_endpoint c) then sendEvent ev w4 else w4)
      = w4\<lparr>effects := effects w4 @ http_fx ev w4, inflight := inflight w4 + length (http_fx ev w4)\<rparr>"
    subgoal for w4 using http_fx_Nil[of w4 c ev] by (auto simp: sendEvent_eq) done
  have t: "trackEvent ty d r w = Normal (let w3 = w2\<lparr>effects := effects w2 @ ws_fx ev w2\<rparr>;
      w4 = w3\<lparr>effects := effects w3 @ io_fx ev w3\<rparr> in 
       w4\<lparr>effects := effects w4 @ http_fx ev w4, inflight := inflight w4 + length (http_fx ev w4)\<rparr>)"
    unfolding trackEvent_def
    apply (simp only: c option.simps Let_def ev simp_thms if_False)
    apply (simp only: w2_def[symmetric])
    apply (simp only: a and_then_simps b)
    apply (subst cc)
     apply (simp add: w2_def c)
    apply simp
    done
  have f1: "ws_fx ev w2 = ws_fx ev w"
    by (rule ws_fx_cong) (simp_all add: w2_def)
  have f2: "io_fx ev (w2\<lparr>effects := effects w2 @ ws_fx ev w\<rparr>) = io_fx ev w"
    by (rule io_fx_cong) (simp_all add: w2_def)
  have f3: "\<And>x. http_fx ev (w2\<lparr>effects := x\<rparr>) = http_fx ev w"
    by (rule http_fx_cong) (simp add: w2_def)
  show ?thesis
    unfolding t Let_def f1 f2 by (simp add: f3) (simp add: w2_def ev_def stored_def)
qed

lemma trackEvent_Normal: "\<exists>w'. trackEvent ty d r w = Normal w'"
  by (cases "enabled (self w)") (simp_all add: trackEvent_enabled trackEvent_disabled)

lemma trackEvent_frame:
  assumes "w' = state_of (trackEvent ty d r w)"
  shows "timers w' = timers w" "sockets w' = sockets w" "next_timer w' = next_timer w"
    "next_socket w' = next_socket w" "io_connected w' = io_connected w" "io_hooked w' = io_hooked w"
    "io_importing w' = io_importing w" "ws_inits w' = ws_inits w" "objects w' = objects w"
    "next_addr w' = next_addr w" "url_ok w' = url_ok w"
    "config (self w') = config (self w)" "webSocket (self w') = webSocket (self w)"
    "socketIO (self w') = socketIO (self w)" "wsReconnectTimeout (self w') = wsReconnectTimeout (self w)"
    "isDestroyed (self w') = isDestroyed (self w)" "events (self w') = events (self w)"
    "sessionId (self w') = sessionId (self w)" "sessionStartTime (self w') = sessionStartTime (self w)"
  using assms by (cases "enabled (self w)"; simp add: trackEvent_enabled trackEvent_disabled)+

subsection \<open>The reconnection invariant\<close>

text \<open>\<open>coherent\<close> holds when an instance has been constructed and is kept by every step.\<close>

lemma live_cong: "sockets w' = sockets w \<Longrightarrow> live w' = live w"
  by (simp add: live_def fun_eq_iff)

lemma coherent_cong:
  assumes "timers w' = timers w" "sockets w' = sockets w" "next_timer w' = next_timer w"
    "config (self w') = config (self w)" "webSocket (self w') = webSocket (self w)"
    "wsReconnectTimeout (self w') = wsReconnectTimeout (self w)"
    "events (self w') = events (self w)"
    "next_addr w \<le> next_addr w'"
  shows "coherent w \<Longrightarrow> coherent w'"
  using assms live_cong[of w' w] by (auto simp: coherent_def config_webSocket_def)

lemma coherent_trackEvent: "coherent w \<Longrightarrow> coherent (state_of (trackEvent ty d r w))"
  by (rule coherent_cong[where w = w]) (simp_all add: trackEvent_frame[OF refl])

lemma coherent_alloc_obj: "coherent w \<Longrightarrow> coherent (alloc_obj x w)"
  by (rule coherent_cong[where w = w]) (simp_all add: alloc_obj_def)

lemma coherent_alloc_array: "coherent w \<Longrightarrow> coherent (alloc_array x w)"
  by (rule coherent_cong[where w = w]) (simp_all add: alloc_array_def)

lemma coherent_effects: "coherent w \<Longrightarrow> coherent (w\<lparr>effects := x\<rparr>)"
  by (rule coherent_cong[where w = w]) simp_all

lemma coherent_report: "coherent (state_of c) \<Longrightarrow> coherent (report c)"
  by (cases c) (simp_all add: report_def coherent_effects)

lemma destroy_eq:
  "destroy r b w =
     Normal (reset_events (destroy_socketIO (destroy_webSocket (destroy_timeout
       (if enabled (self w)
        then state_of (trackEvent ''session_end'' (next_addr w) r
               (alloc_obj (getSessionData b) (w\<lparr>self := (self w)\<lparr>isDestroyed := True\<rparr>\<rparr>)))
        else w\<lparr>self := (self w)\<lparr>isDestroyed := True\<rparr>\<rparr>)))))"
proof -
  obtain w' where "trackEvent ''session_end'' (next_addr w) r
               (alloc_obj (getSessionData b) (w\<lparr>self := (self w)\<lparr>isDestroyed := True\<rparr>\<rparr>)) = Normal w'"
    using trackEvent_Normal by blast
  then show ?thesis
    by (simp add: destroy_def Let_def enabled_def alloc_obj_def)
qed

lemma coherent_isDestroyed: "coherent w \<Longrightarrow> coherent (w\<lparr>self := (self w)\<lparr>isDestroyed := x\<rparr>\<rparr>)"
  by (rule coherent_cong[where w = w]) simp_all

lemma live_ws_close: "live (ws_close s w) = live w"
  by (auto simp: live_def ws_close_def fun_eq_iff)

lemma coherent_destroy_socketIO: "coherent w \<Longrightarrow> coherent (destroy_socketIO w)"
  by (rule coherent_cong[where w = w]) (simp_all add: destroy_socketIO_def split: option.splits)

lemma coherent_timers_tracked:
  assumes "coherent w"
  shows "timers w = [] \<or> (\<exists>h d. timers w = [(h, d)] \<and> wsReconnectTimeout (self w) = Some h \<and> h \<noteq> 0)"
  using assms unfolding coherent_def by blast

lemma coherent_timers_only:
  assumes "timers w' = []" "sockets w' = sockets w" "next_timer w' = next_timer w"
    "config (self w') = config (self w)" "webSocket (self w') = webSocket (self w) \<or> webSocket (self w') = None"
    "events (self w') = events (self w)" "next_addr w \<le> next_addr w'" "coherent w"
  shows "coherent w'"
proof -
  have l: "live w' = live w" using assms(2) by (rule live_cong)
  from \<open>coherent w\<close> show ?thesis
    unfolding coherent_def l using assms(1-7) by (auto simp: config_webSocket_def)
qed

lemma destroy_timeout_timers: "coherent w \<Longrightarrow> timers (destroy_timeout w) = []"
  using coherent_timers_tracked[of w]
  by (auto simp: destroy_timeout_def clearTimeout_def split: option.splits)

lemma coherent_destroy_timeout: "coherent w \<Longrightarrow> coherent (destroy_timeout w)"
  apply (rule coherent_timers_only[where w = w])
         apply (simp add: destroy_timeout_timers)
        apply (simp_all add: destroy_timeout_def clearTimeout_def split: option.splits)
  done

lemma coherent_same:
  assumes "timers w' = timers w" "live w' = live w"
    "\<And>s. hooked (sockets w' s) = hooked (sockets w s)" "next_timer w' = next_timer w"
    "config (self w') = config (self w)"
    "webSocket (self w') = webSocket (self w) \<or> webSocket (self w') = None"
    "wsReconnectTimeout (self w') = wsReconnectTimeout (self w) \<or> timers w = []"
    "events (self w') < next_addr w'" "coherent w"
  shows "coherent w'"
  using \<open>coherent w\<close> unfolding coherent_def assms(1,2,3,4) using assms(5-8) 
  by (auto simp: config_webSocket_def)

lemma coherent_destroy_webSocket: "coherent w \<Longrightarrow> coherent (destroy_webSocket w)"
proof (cases "webSocket (self w)")
  case None
  then show "coherent w \<Longrightarrow> coherent (destroy_webSocket w)" by (simp add: destroy_webSocket_def)
next
  case (Some s)
  assume "coherent w"
  have l: "live (destroy_webSocket w) = live w"
    using live_ws_close[of s w] Some by (simp add: destroy_webSocket_def live_def fun_eq_iff)
  show "coherent (destroy_webSocket w)"
    apply (rule coherent_same[where w = w, OF _ l])
    using Some \<open>coherent w\<close> apply (simp_all add: destroy_webSocket_def ws_close_def)
    apply (simp add: coherent_def)
    done
qed

lemma coherent_reset_events: "coherent w \<Longrightarrow> coherent (reset_events w)"
  apply (rule coherent_same[where w = w])
          apply (simp_all add: reset_events_def alloc_array_def)
  apply (rule live_cong)
  apply simp
  done

lemma coherent_destroy: "coherent w \<Longrightarrow> coherent (state_of (destroy r b w))"
  by (simp add: destroy_eq coherent_reset_events coherent_destroy_socketIO coherent_destroy_webSocket coherent_destroy_timeout
      coherent_trackEvent coherent_alloc_obj coherent_isDestroyed)

lemma state_of_invoke [simp]: "state_of (invoke cb w) = w"
  by (simp add: invoke_def split: option.splits)

lemma coherentI:
  assumes "timers w = [] \<or> (\<exists>h d. timers w = [(h, d)] \<and> wsReconnectTimeout (self w) = Some h \<and> h \<noteq> 0)"
    "timers w \<noteq> [] \<Longrightarrow> \<forall>s. \<not> live w s"
    "\<And>s s'. live w s \<Longrightarrow> live w s' \<Longrightarrow> s = s'"
    "next_timer w \<noteq> 0"
    "\<And>s. hooked (sockets w s) \<Longrightarrow> \<exists>c. config_webSocket (self w) = Some (WebSocketHandler c)"
    "\<And>s. webSocket (self w) = Some s \<Longrightarrow> hooked (sockets w s)"
    "events (self w) < next_addr w"
  shows "coherent w"
  unfolding coherent_def using assms by blast

lemma coherentD:
  assumes "coherent w"
  shows "timers w \<noteq> [] \<Longrightarrow> \<not> live w s"
    "live w s \<Longrightarrow> live w s' \<Longrightarrow> s = s'"
    "next_timer w \<noteq> 0"
    "hooked (sockets w s) \<Longrightarrow> \<exists>c. config_webSocket (self w) = Some (WebSocketHandler c)"
    "webSocket (self w) = Some s \<Longrightarrow> hooked (sockets w s)"
    "events (self w) < next_addr w"
  using assms unfolding coherent_def by blast+

lemma coherent_initializeWebSocket:
  assumes "coherent w" "timers w = []" "\<And>s. \<not> live w s"
  shows "coherent (initializeWebSocket w)"
proof (cases "config_webSocket (self w)")
  case None
  then have eq: "initializeWebSocket w = w\<lparr>ws_inits := Suc (ws_inits w)\<rparr>"
    by (simp add: initializeWebSocket_def Let_def config_webSocket_def)
  show ?thesis unfolding eq
    by (rule coherent_cong[where w = w]) (simp_all add: assms)
next
  case (Some h)
  show ?thesis
  proof (cases h)
    case (SocketIOHandler c)
    then have eq: "initializeWebSocket w = w\<lparr>ws_inits := Suc (ws_inits w)\<rparr>"
      using Some by (simp add: initializeWebSocket_def Let_def config_webSocket_def)
    show ?thesis unfolding eq
      by (rule coherent_cong[where w = w]) (simp_all add: assms)
  next
    case (WebSocketHandler c)
    show ?thesis
    proof (cases "ws_connection c")
      case Instance
      have eq: "initializeWebSocket w = hook Adopted (w\<lparr>ws_inits := Suc (ws_inits w), self := (self w)\<lparr>webSocket := Some Adopted\<rparr>\<rparr>)"
        using Some WebSocketHandler Instance
        by (simp add: initializeWebSocket_def Let_def config_webSocket_def)
      have lv: "\<And>s. live (initializeWebSocket w) s \<Longrightarrow> s = Adopted"
        using assms(3) unfolding eq by (auto simp: live_def hook_def split: if_splits)
      show ?thesis
      proof (rule coherentI)
        show "\<And>s s'. live (initializeWebSocket w) s \<Longrightarrow> live (initializeWebSocket w) s' \<Longrightarrow> s = s'"
          using lv by blast
        show "\<And>s. hooked (sockets (initializeWebSocket w) s) \<Longrightarrow>
            \<exists>c. config_webSocket (self (initializeWebSocket w)) = Some (WebSocketHandler c)"
          using Some WebSocketHandler by (simp add: eq hook_def config_webSocket_def)
        show "\<And>s. webSocket (self (initializeWebSocket w)) = Some s \<Longrightarrow> hooked (sockets (initializeWebSocket w) s)"
          by (simp add: eq hook_def)
      qed (use assms(2) coherentD[OF assms(1)] in \<open>simp_all add: eq hook_def\<close>)
    next
      case (Url u)
      show ?thesis
      proof (cases "url_ok w u")
        case False
        have eq: "initializeWebSocket w = console_error ''[Analytics WebSocket] Failed to initialize:'' (w\<lparr>ws_inits := Suc (ws_inits w)\<rparr>)"
          using Some WebSocketHandler Url False
          by (simp add: initializeWebSocket_def Let_def config_webSocket_def)
        show ?thesis unfolding eq
          by (rule coherent_cong[where w = w]) (simp_all add: console_error_def assms)
      next
        case True
        define n where "n = next_socket w"
        have eq: "initializeWebSocket w = w\<lparr>ws_inits := Suc (ws_inits w),
             sockets := (sockets w)(Created n := \<lparr>readyState = CONNECTING, hooked = True\<rparr>),
             next_socket := Suc n, self := (self w)\<lparr>webSocket := Some (Created n)\<rparr>\<rparr>"
          using Some WebSocketHandler Url True
          by (simp add: initializeWebSocket_def Let_def config_webSocket_def hook_def n_def)
        have lv: "\<And>s. live (initializeWebSocket w) s \<Longrightarrow> s = Created n"
          using assms(3) unfolding eq by (auto simp: live_def split: if_splits)
        show ?thesis
        proof (rule coherentI)
          show "\<And>s s'. live (initializeWebSocket w) s \<Longrightarrow> live (initializeWebSocket w) s' \<Longrightarrow> s = s'"
            using lv by blast
          show "\<And>s. hooked (sockets (initializeWebSocket w) s) \<Longrightarrow>
              \<exists>c. config_webSocket (self (initializeWebSocket w)) = Some (WebSocketHandler c)"
            using Some WebSocketHandler by (simp add: eq config_webSocket_def)
          show "\<And>s. webSocket (self (initializeWebSocket w)) = Some s \<Longrightarrow> hooked (sockets (initializeWebSocket w) s)"
            by (simp add: eq)
        qed (use assms(2) coherentD[OF assms(1)] in \<open>simp_all add: eq\<close>)
      qed
    qed
  qed
qed

lemma ws_onclose_eq:
  "ws_onclose c w =
     (case ws_onClose c of Some (Some e) \<Rightarrow> Throw e w
      | _ \<Rightarrow> if autoReconnect c \<noteq> Some False \<and> \<not> isDestroyed (self w)
             then Normal (scheduled (reconnect_delay c) w) else Normal w)"
  by (simp add: ws_onclose_def invoke_def scheduled_def reconnect_delay_def Let_def split: option.splits)

lemma ws_onclose_cases:
  "state_of (ws_onclose c w) = w \<or>
   (\<not> isDestroyed (self w) \<and> state_of (ws_onclose c w) = scheduled (reconnect_delay c) w)"
  by (simp add: ws_onclose_eq split: option.splits)

lemma coherent_scheduled:
  assumes "coherent w" "timers w = []" "\<And>s. \<not> live w s"
  shows "coherent (scheduled d w)"
proof (rule coherentI)
  have l: "live (scheduled d w) = live w" by (rule live_cong) (simp add: scheduled_def)
  show "\<And>s s'. live (scheduled d w) s \<Longrightarrow> live (scheduled d w) s' \<Longrightarrow> s = s'"
    unfolding l using assms(3) by blast
  show "timers (scheduled d w) \<noteq> [] \<Longrightarrow> \<forall>s. \<not> live (scheduled d w) s"
    unfolding l using assms(3) by blast
  show "timers (scheduled d w) = [] \<or> (\<exists>h da. timers (scheduled d w) = [(h, da)] \<and>
        wsReconnectTimeout (self (scheduled d w)) = Some h \<and> h \<noteq> 0)"
    using assms(2) coherentD(3)[OF assms(1)] by (simp add: scheduled_def)
qed (use coherentD[OF assms(1)] in \<open>simp_all add: scheduled_def config_webSocket_def\<close>)

lemma set_readyState_frame [simp]:
  "hooked (sockets (set_readyState s st w) a) = hooked (sockets w a)"
  "timers (set_readyState s st w) = timers w" "self (set_readyState s st w) = self w"
  "next_timer (set_readyState s st w) = next_timer w" "next_addr (set_readyState s st w) = next_addr w"
  by (simp_all add: set_readyState_def)

lemma live_set_CLOSED: "live (set_readyState s CLOSED w) s' = (live w s' \<and> s' \<noteq> s)"
  by (auto simp: live_def set_readyState_def)

lemma coherent_set_CLOSED:
  assumes "coherent w"
  shows "coherent (set_readyState s CLOSED w)"
proof (rule coherentI)
  show "\<And>a b. live (set_readyState s CLOSED w) a \<Longrightarrow> live (set_readyState s CLOSED w) b \<Longrightarrow> a = b"
    unfolding live_set_CLOSED using coherentD(2)[OF assms] by blast
  show "timers (set_readyState s CLOSED w) \<noteq> [] \<Longrightarrow> \<forall>a. \<not> live (set_readyState s CLOSED w) a"
    unfolding live_set_CLOSED using coherentD(1)[OF assms] by (simp add: set_readyState_def)
  show "timers (set_readyState s CLOSED w) = [] \<or> (\<exists>h da. timers (set_readyState s CLOSED w) = [(h, da)] \<and>
        wsReconnectTimeout (self (set_readyState s CLOSED w)) = Some h \<and> h \<noteq> 0)"
    using coherent_timers_tracked[OF assms] by (simp add: set_readyState_def)
qed (use coherentD[OF assms] in \<open>simp_all\<close>)

lemma closing_last_live:
  assumes "coherent w" "live w s"
  shows "timers (set_readyState s CLOSED w) = []" "\<not> live (set_readyState s CLOSED w) s'"
proof -
  show "timers (set_readyState s CLOSED w) = []"
    using coherentD(1)[OF assms(1), of s] assms(2) by (auto simp: set_readyState_def)
  show "\<not> live (set_readyState s CLOSED w) s'"
    unfolding live_set_CLOSED using coherentD(2)[OF assms(1) _ assms(2)] by blast
qed

lemma coherent_WsClose: 
  assumes "coherent w"
  shows "coherent (step (WsClose s) w)"
proof (cases "readyState (sockets w s) \<noteq> CLOSED \<and> hooked (sockets w s)")
  case False
  then consider "readyState (sockets w s) = CLOSED" | "readyState (sockets w s) \<noteq> CLOSED" "\<not> hooked (sockets w s)"
    by blast
  then show ?thesis
  proof cases
    case 1
    then show ?thesis using assms by simp
  next
    case 2
    then have "step (WsClose s) w = set_readyState s CLOSED w"
      by (simp add: dispatch_def)
    then show ?thesis using coherent_set_CLOSED[OF assms, of s] by simp
  qed
next
  case True
  then have lv: "live w s" by (simp add: live_def)
  define w1 where "w1 = set_readyState s CLOSED w"
  have c1: "coherent w1" unfolding w1_def by (rule coherent_set_CLOSED[OF assms])
  have hk: "hooked (sockets w1 s)" using True by (simp add: w1_def set_readyState_def)
  have t1: "timers w1 = []" and nl: "\<And>s'. \<not> live w1 s'"
    unfolding w1_def using closing_last_live[OF assms lv] by blast+
  obtain c where c: "config_webSocket (self w1) = Some (WebSocketHandler c)"
    using coherentD(4)[OF c1 hk] by blast
  have st: "step (WsClose s) w = report (ws_onclose c w1)"
    using True hk c by (simp add: dispatch_def w1_def[symmetric])
  have "coherent (state_of (ws_onclose c w1))"
    using ws_onclose_cases[of c w1] c1 coherent_scheduled[OF c1 t1 nl] by auto
  then show ?thesis unfolding st by (rule coherent_report)
qed

lemma live_set_OPEN:
  "readyState (sockets w s) = CONNECTING \<Longrightarrow> live (set_readyState s OPEN w) = live w"
  by (auto simp: live_def set_readyState_def fun_eq_iff)

lemma coherent_set_OPEN:
  assumes "coherent w" "readyState (sockets w s) = CONNECTING"
  shows "coherent (set_readyState s OPEN w)"
  by (rule coherent_same[where w = w, OF _ live_set_OPEN[OF assms(2)]])
     (use assms(1) coherentD(6)[OF assms(1)] in simp_all)

lemma dispatch_state:
  assumes "\<And>c. state_of (handler c w) = w"
  shows "dispatch handler s w = w \<or> (\<exists>e. dispatch handler s w = w\<lparr>effects := effects w @ [Uncaught e]\<rparr>)"
proof -
  have "\<And>c. report (handler c w) = w \<or> (\<exists>e. report (handler c w) = w\<lparr>effects := effects w @ [Uncaught e]\<rparr>)"
    subgoal for c using assms[of c] by (cases "handler c w") (auto simp: report_def) done
  then show ?thesis
    by (auto simp: dispatch_def split: option.splits handler.splits)
qed

lemma coherent_dispatch:
  assumes "\<And>c. state_of (handler c w) = w" "coherent w"
  shows "coherent (dispatch handler s w)"
  using dispatch_state[of handler w s, OF assms(1)] coherent_effects[OF assms(2)] assms(2) by auto

lemma state_of_ws_onopen [simp]: "state_of (ws_onopen c w) = w"
  by (simp add: ws_onopen_def)

lemma ws_onerror_state: "state_of (ws_onerror c w) = console_error ''[Analytics WebSocket] Error:'' w"
  by (simp add: ws_onerror_def)

lemma coherent_WsOpen: "coherent w \<Longrightarrow> coherent (step (WsOpen s) w)"
  by (simp add: coherent_dispatch coherent_set_OPEN)

lemma coherent_WsError: "coherent w \<Longrightarrow> coherent (step (WsError s) w)"
proof -
  assume c: "coherent w"
  have "\<And>c'. coherent (report (ws_onerror c' w))"
    by (rule coherent_report) (simp add: ws_onerror_state console_error_def coherent_effects c)
  then show ?thesis using c
    by (auto simp: dispatch_def split: option.splits handler.splits)
qed

lemma timer_fires_last:
  assumes "coherent w" "h \<in> fst ` set (timers w)"
  shows "timers (clearTimeout h w) = []" "\<not> live (clearTimeout h w) s" "coherent (clearTimeout h w)"
proof -
  from assms(2) have ne: "timers w \<noteq> []" by auto
  with coherent_timers_tracked[OF assms(1)] obtain h' d where t: "timers w = [(h', d)]"
    by blast
  with assms(2) have "h' = h" by simp
  with t show t0: "timers (clearTimeout h w) = []" by (simp add: clearTimeout_def)
  have l: "live (clearTimeout h w) = live w" by (rule live_cong) (simp add: clearTimeout_def)
  show "\<not> live (clearTimeout h w) s" unfolding l using coherentD(1)[OF assms(1) ne] .
  show "coherent (clearTimeout h w)"
    by (rule coherent_timers_only[where w = w, OF t0]) (simp_all add: clearTimeout_def assms(1))
qed

lemma coherent_TimerFires: "coherent w \<Longrightarrow> coherent (step (TimerFires h) w)"
  using timer_fires_last[of w h] by (auto intro!: coherent_initializeWebSocket)

lemma coherent_getEvents: "coherent w \<Longrightarrow> coherent (snd (getEvents w))"
  by (simp add: getEvents_def coherent_alloc_array)

lemma coherent_io: 
  assumes "coherent w"
  shows "coherent (initializeSocketIO_imported ok w)" "coherent (io_dispatch s lg cb (w\<lparr>io_connected := x\<rparr>))"
    "coherent (io_dispatch s lg cb w)"
proof -
  show "coherent (initializeSocketIO_imported ok w)"
    by (rule coherent_cong[where w = w]) (simp_all add: initializeSocketIO_imported_def console_error_def Let_def assms)
  have a: "\<And>w'. coherent w' \<Longrightarrow> coherent (io_dispatch s lg cb w')"
    unfolding io_dispatch_def
    by (auto intro!: coherent_report simp: console_error_def coherent_effects)
  show "coherent (io_dispatch s lg cb w)" using a assms by blast
  have "coherent (w\<lparr>io_connected := x\<rparr>)"
    by (rule coherent_cong[where w = w]) (simp_all add: assms)
  then show "coherent (io_dispatch s lg cb (w\<lparr>io_connected := x\<rparr>))" by (rule a)
qed

lemma coherent_FetchSettles: "coherent w \<Longrightarrow> coherent (step (FetchSettles out) w)"
  by (auto intro!: coherent_cong[where w = w] simp: sendEvent_settled_def console_error_def split: fetch_outcome.splits)

lemma coherent_step: "coherent w \<Longrightarrow> coherent (step c w)"
proof (cases c)
  case (TrackEvent ty p r)
  assume "coherent w"
  then show ?thesis unfolding TrackEvent by (simp add: coherent_trackEvent coherent_alloc_obj)
next
  case (Destroy r b)
  assume "coherent w"
  then show ?thesis unfolding Destroy by (simp add: coherent_destroy)
next
  case GetEvents
  assume "coherent w"
  then show ?thesis unfolding GetEvents by (simp add: coherent_getEvents)
qed (simp_all only: coherent_WsOpen coherent_WsError coherent_WsClose coherent_TimerFires
       coherent_FetchSettles, (simp add: coherent_io)+)

lemma coherent_run: "coherent w \<Longrightarrow> coherent (run cs w)"
  by (induction cs arbitrary: w) (simp_all add: coherent_step)

subsection \<open>After \<^verbatim>\<open>destroy\<close>\<close>

text \<open>Once torn down, an instance stays so: no timer, no socket, no further connection.\<close>

lemma destroy_parts_frame [simp]:
  "isDestroyed (self (destroy_timeout w)) = isDestroyed (self w)"
  "isDestroyed (self (destroy_webSocket w)) = isDestroyed (self w)"
  "isDestroyed (self (destroy_socketIO w)) = isDestroyed (self w)"
  "isDestroyed (self (reset_events w)) = isDestroyed (self w)"
  "webSocket (self (destroy_webSocket w)) = None"
  "webSocket (self (destroy_socketIO w)) = webSocket (self w)"
  "webSocket (self (reset_events w)) = webSocket (self w)"
  "socketIO (self (destroy_socketIO w)) = None"
  "socketIO (self (reset_events w)) = socketIO (self w)"
  "timers (destroy_webSocket w) = timers w"
  "timers (destroy_socketIO w) = timers w"
  "timers (reset_events w) = timers w"
  "ws_inits (destroy_timeout w) = ws_inits w"
  "ws_inits (destroy_webSocket w) = ws_inits w"
  "ws_inits (destroy_socketIO w) = ws_inits w"
  "ws_inits (reset_events w) = ws_inits w"
  "io_importing (destroy_timeout w) = io_importing w"
  "io_importing (destroy_webSocket w) = io_importing w"
  "io_importing (destroy_socketIO w) = io_importing w"
  "io_importing (reset_events w) = io_importing w"
  "config (self (destroy_timeout w)) = config (self w)"
  "config (self (destroy_webSocket w)) = config (self w)"
  "config (self (destroy_socketIO w)) = config (self w)"
  "config (self (reset_events w)) = config (self w)"
  "effects (destroy_timeout w) = effects w"
  "effects (destroy_webSocket w) = effects w"
  "effects (destroy_socketIO w) = effects w"
  "effects (reset_events w) = effects w"
  by (simp_all add: destroy_timeout_def destroy_webSocket_def destroy_socketIO_def reset_events_def
       clearTimeout_def ws_close_def alloc_array_def split: option.splits)

lemma destroy_timeout_Nil: "timers w = [] \<Longrightarrow> timers (destroy_timeout w) = []"
  by (simp add: destroy_timeout_def clearTimeout_def split: option.splits)

lemma stored_reset_events [simp]: "stored (reset_events w) = []"
  by (simp add: stored_def reset_events_def alloc_array_def)

lemma destroy_eq':
  "destroy r b w = Normal (reset_events (destroy_socketIO (destroy_webSocket (destroy_timeout (session_end r b w)))))"
  by (simp add: destroy_eq session_end_def)

lemma session_end_frame [simp]:
  "isDestroyed (self (session_end r b w))" "timers (session_end r b w) = timers w"
  "ws_inits (session_end r b w) = ws_inits w" "io_importing (session_end r b w) = io_importing w"
  "config (self (session_end r b w)) = config (self w)"
  "webSocket (self (session_end r b w)) = webSocket (self w)"
  "socketIO (self (session_end r b w)) = socketIO (self w)"
  by (simp_all add: session_end_def trackEvent_frame[OF refl] alloc_obj_def)

lemma coherent_session_end: "coherent w \<Longrightarrow> coherent (session_end r b w)"
  by (simp add: session_end_def coherent_trackEvent coherent_alloc_obj coherent_isDestroyed)

lemma destroy_torn_down:
  assumes "coherent w \<or> timers w = []"
  shows "torn_down (state_of (destroy r b w))"
proof -
  have "timers (destroy_timeout (session_end r b w)) = []"
    using assms destroy_timeout_timers[OF coherent_session_end, of w r b]
      destroy_timeout_Nil[of "session_end r b w"] by auto
  then show ?thesis by (simp add: destroy_eq' torn_down_def)
qed

lemma destroy_control [simp]:
  "ws_inits (state_of (destroy r b w)) = ws_inits w"
  "io_importing (state_of (destroy r b w)) = io_importing w"
  "config (self (state_of (destroy r b w))) = config (self w)"
  "socketIO (self (state_of (destroy r b w))) = None"
  "isDestroyed (self (state_of (destroy r b w)))"
  "stored (state_of (destroy r b w)) = []"
  by (simp_all add: destroy_eq')

lemma torn_down_step:
  assumes "torn_down w"
  shows "torn_down (step c w)" "ws_inits (step c w) = ws_inits w"
proof -
  have td: "isDestroyed (self w)" "timers w = []" "webSocket (self w) = None"
    using assms by (simp_all add: torn_down_def)
  have "torn_down (step c w) \<and> ws_inits (step c w) = ws_inits w"
  proof (cases c)
    case (TrackEvent ty p r)
    show ?thesis unfolding TrackEvent
      using td by (simp add: torn_down_def trackEvent_frame[OF refl] alloc_obj_def)
  next
    case (Destroy r b)
    show ?thesis unfolding Destroy using td by (simp add: destroy_torn_down)
  next
    case GetEvents
    show ?thesis unfolding GetEvents using td by (simp add: torn_down_def getEvents_def alloc_array_def)
  next
    case (WsOpen s)
    show ?thesis unfolding WsOpen
      using td dispatch_state[of ws_onopen "set_readyState s OPEN w" s]
      by (auto simp: torn_down_def set_readyState_def)
  next
    case (WsError s)
    have "\<And>c. torn_down (report (ws_onerror c w)) \<and> ws_inits (report (ws_onerror c w)) = ws_inits w"
      subgoal for c using td
        by (cases "ws_onError c"; cases "the (ws_onError c)")
           (auto simp: ws_onerror_def invoke_def report_def console_error_def torn_down_def)
      done
    then show ?thesis unfolding WsError using assms
      by (auto simp: dispatch_def split: option.splits handler.splits)
  next
    case (WsClose s)
    have "\<And>c. state_of (ws_onclose c (set_readyState s CLOSED w)) = set_readyState s CLOSED w"
      subgoal for c using ws_onclose_cases[of c "set_readyState s CLOSED w"] td by simp done
    from dispatch_state[of ws_onclose "set_readyState s CLOSED w" s, OF this]
    show ?thesis unfolding WsClose
      using td by (auto simp: torn_down_def set_readyState_def)
  next
    case (TimerFires h)
    show ?thesis unfolding TimerFires using td assms by simp
  next
    case (IoImported ok)
    show ?thesis unfolding IoImported using td 
      by (simp add: torn_down_def initializeSocketIO_imported_def Let_def console_error_def)
  next
    case (IoConnect s)
    show ?thesis unfolding IoConnect using td
      by (auto simp: torn_down_def io_dispatch_def report_def invoke_def console_error_def split: option.splits)
  next
    case (IoDisconnect s)
    show ?thesis unfolding IoDisconnect using td
      by (auto simp: torn_down_def io_dispatch_def report_def invoke_def console_error_def split: option.splits)
  next
    case (IoError s)
    show ?thesis unfolding IoError using td
      by (auto simp: torn_down_def io_dispatch_def report_def invoke_def console_error_def split: option.splits)
  next
    case (FetchSettles out)
    show ?thesis unfolding FetchSettles using td
      by (auto simp: torn_down_def sendEvent_settled_def console_error_def split: fetch_outcome.splits)
  qed
  then show "torn_down (step c w)" "ws_inits (step c w) = ws_inits w" by blast+
qed

lemma torn_down_run:
  "torn_down w \<Longrightarrow> torn_down (run cs w) \<and> ws_inits (run cs w) = ws_inits w"
  by (induction cs arbitrary: w) (simp_all add: torn_down_step)

subsection \<open>The constructor\<close>

lemma constructor_eq:
  "constructor cfg fresh now r b w0 =
     (let w2 = wired (born cfg fresh now w0) in
      if enabled (self w2)
      then trackEvent ''session_start'' (next_addr w2) r (alloc_obj (getSessionData b) w2)
      else Normal w2)"
  by (simp add: constructor_def born_def wired_def Let_def)

lemma coherent_born: "coherent (born cfg fresh now (fresh_env st conn ok))"
  by (rule coherentI) (simp_all add: born_def fresh_env_def alloc_array_def live_def)

lemma born_fresh [simp]:
  "timers (born cfg fresh now (fresh_env st conn ok)) = []"
  "\<not> live (born cfg fresh now (fresh_env st conn ok)) s"
  "\<not> isDestroyed (self (born cfg fresh now w0))"
  by (simp_all add: born_def fresh_env_def alloc_array_def live_def)

lemma coherent_initializeSocketIO: "coherent w \<Longrightarrow> coherent (initializeSocketIO w)"
  by (rule coherent_cong[where w = w])
     (simp_all add: initializeSocketIO_def split: option.splits handler.splits connection.splits)

lemma coherent_wired: "coherent (wired (born cfg fresh now (fresh_env st conn ok)))"
  unfolding wired_def
  by (auto split: option.splits handler.splits
      intro!: coherent_born coherent_initializeSocketIO coherent_initializeWebSocket)

lemma coherent_constructor:
  "coherent (state_of (constructor cfg fresh now r b (fresh_env st conn ok)))"
  by (simp add: constructor_eq Let_def coherent_wired coherent_trackEvent coherent_alloc_obj)

lemma coherent_session: "coherent (session cfg fresh now r b st conn ok cs)"
  unfolding session_def by (rule coherent_run) (rule coherent_constructor)

subsection \<open>The accumulator under calls and events\<close>

text \<open>Only a tracked notification changes the accumulator, and only through \<^verbatim>\<open>updateMetrics\<close>.\<close>

lemma acc_control [simp]:
  "acc (a\<lparr>webSocket := x1\<rparr>) = acc a" "acc (a\<lparr>socketIO := x2\<rparr>) = acc a"
  "acc (a\<lparr>wsReconnectTimeout := x3\<rparr>) = acc a" "acc (a\<lparr>isDestroyed := x4\<rparr>) = acc a"
  "acc (a\<lparr>events := x5\<rparr>) = acc a"
  by (simp_all add: acc_def)

lemma updateMetrics_other:
  "ty \<notin> {''play'', ''pause'', ''ended'', ''buffering_start'', ''buffering_end'', ''seeked''}
   \<Longrightarrow> updateMetrics ty t a = a"
  by (simp add: updateMetrics_def)

lemma acc_updateMetrics_cong: "acc a = acc a' \<Longrightarrow> acc (updateMetrics ty t a) = acc (updateMetrics ty t a')"
  by (simp add: acc_def updateMetrics_def)

lemma self_trackEvent:
  "self (state_of (trackEvent ty d r w)) =
     (if enabled (self w) then updateMetrics ty (at_update r) (self w) else self w)"
  by (simp add: trackEvent_enabled trackEvent_disabled)

lemma acc_destroy_parts [simp]:
  "acc (self (destroy_timeout w)) = acc (self w)"
  "acc (self (destroy_webSocket w)) = acc (self w)"
  "acc (self (destroy_socketIO w)) = acc (self w)"
  "acc (self (reset_events w)) = acc (self w)"
  by (simp_all add: destroy_timeout_def destroy_webSocket_def destroy_socketIO_def reset_events_def
       clearTimeout_def ws_close_def alloc_array_def split: option.splits)

lemma acc_session_end [simp]: "acc (self (session_end r b w)) = acc (self w)"
  by (simp add: session_end_def self_trackEvent alloc_obj_def updateMetrics_other enabled_def)

lemma acc_dispatch:
  assumes "\<And>c. acc (self (state_of (handler c w))) = acc (self w)"
  shows "acc (self (dispatch handler s w)) = acc (self w)"
proof -
  have "\<And>c. acc (self (report (handler c w))) = acc (self w)"
    subgoal for c using assms[of c] by (cases "handler c w") (auto simp: report_def) done
  then show ?thesis by (auto simp: dispatch_def split: option.splits handler.splits)
qed

lemma acc_ws_onclose: "acc (self (state_of (ws_onclose c w))) = acc (self w)"
  using ws_onclose_cases[of c w] by (auto simp: scheduled_def)

lemma acc_initializeWebSocket [simp]: "acc (self (initializeWebSocket w)) = acc (self w)"
  by (simp add: initializeWebSocket_def Let_def hook_def console_error_def
      split: option.splits handler.splits connection.splits)

lemma acc_io_dispatch [simp]: "acc (self (io_dispatch s lg cb w)) = acc (self w)"
  by (auto simp: io_dispatch_def report_def invoke_def console_error_def split: option.splits)

lemma acc_step:
  "acc (self (step c w)) =
     acc (case c of TrackEvent ty p r \<Rightarrow>
              (if enabled (self w) then updateMetrics ty (at_update r) (self w) else self w)
          | _ \<Rightarrow> self w)"
proof (cases c)
  case (TrackEvent ty p r)
  show ?thesis unfolding TrackEvent by (simp add: self_trackEvent alloc_obj_def)
next
  case (Destroy r b)
  show ?thesis unfolding Destroy by (simp add: destroy_eq')
next
  case (WsOpen s)
  show ?thesis unfolding WsOpen by (simp add: acc_dispatch set_readyState_def)
next
  case (WsError s)
  show ?thesis unfolding WsError by (simp add: acc_dispatch ws_onerror_state console_error_def)
next
  case (WsClose s)
  show ?thesis unfolding WsClose by (simp add: acc_dispatch acc_ws_onclose set_readyState_def)
next
  case (TimerFires h)
  show ?thesis unfolding TimerFires by (simp add: clearTimeout_def)
next
  case (IoImported ok)
  show ?thesis unfolding IoImported by (simp add: initializeSocketIO_imported_def Let_def console_error_def)
next
  case (FetchSettles out)
  show ?thesis unfolding FetchSettles
    by (simp add: sendEvent_settled_def console_error_def split: fetch_outcome.splits)
qed (simp_all add: getEvents_def alloc_array_def)

lemma config_step [simp]: "config (self (step c w)) = config (self w)"
  using acc_step[of c w] by (cases c) (simp_all add: acc_def split: if_splits)

lemma enabled_step [simp]: "enabled (self (step c w)) = enabled (self w)"
  by (simp add: enabled_def)

lemma enabled_run [simp]: "enabled (self (run cs w)) = enabled (self w)"
  by (induction cs arbitrary: w) simp_all

lemma rebufferCount_step:
  "rebufferCount (self (step c w)) =
     rebufferCount (self w) + (if enabled (self w) \<and> tracks ''buffering_start'' c then 1 else 0)"
  using acc_step[of c w]
  by (cases c) (auto simp: acc_def updateMetrics_def split: if_splits)

lemma rebufferCount_run:
  "enabled (self w) \<Longrightarrow>
     rebufferCount (self (run cs w)) = rebufferCount (self w) + tracked ''buffering_start'' cs"
  by (induction cs arbitrary: w) (simp_all add: rebufferCount_step tracked_def)

lemma buffer_step_track:
  assumes "enabled (self w)"
  shows "bufferStartTime (self (step (TrackEvent ty p r) w)) = bufferStartTime (updateMetrics ty (at_update r) (self w))"
    "totalBufferTime (self (step (TrackEvent ty p r) w)) = totalBufferTime (updateMetrics ty (at_update r) (self w))"
    "playbackStartTime (self (step (TrackEvent ty p r) w)) = playbackStartTime (updateMetrics ty (at_update r) (self w))"
    "totalPlayTime (self (step (TrackEvent ty p r) w)) = totalPlayTime (updateMetrics ty (at_update r) (self w))"
  using assms acc_step[of "TrackEvent ty p r" w] by (simp_all add: acc_def)

lemma buffering_scenario:
  assumes "enabled (self w)" "at_update r1 \<noteq> 0"
  shows "totalBufferTime (self (run [TrackEvent ''buffering_start'' p1 r1, TrackEvent ''buffering_end'' p2 r2,
            TrackEvent ''buffering_start'' p3 r3] w)) = totalBufferTime (self w) + (at_update r2 - at_update r1)"
proof -
  define w1 where "w1 = step (TrackEvent ''buffering_start'' p1 r1) w"
  define w2 where "w2 = step (TrackEvent ''buffering_end'' p2 r2) w1"
  have e: "enabled (self w1)" "enabled (self w2)"
    using assms(1) by (simp_all add: w1_def w2_def del: step.simps)
  have a1: "bufferStartTime (self w1) = Some (at_update r1)" "totalBufferTime (self w1) = totalBufferTime (self w)"
    unfolding w1_def buffer_step_track[OF assms(1)] by (simp_all add: updateMetrics_def)
  have a2: "totalBufferTime (self w2) = totalBufferTime (self w) + (at_update r2 - at_update r1)"
    unfolding w2_def buffer_step_track[OF e(1)] using a1 assms(2) by (simp add: updateMetrics_def truthy_num_def)
  have "totalBufferTime (self (step (TrackEvent ''buffering_start'' p3 r3) w2)) = totalBufferTime (self w2)"
    unfolding buffer_step_track[OF e(2)] by (simp add: updateMetrics_def)
  then show ?thesis using a2 by (simp add: w1_def w2_def del: step.simps)
qed







subsection \<open>Objects, arrays and the example instances\<close>

lemma map_of_spread: "map_of (spread a b) = map_of a ++ map_of (rev b)"
  unfolding spread_def
  by (induction b arbitrary: a) (auto simp: update_conv' map_add_def fun_eq_iff split: option.splits)

lemma getMetrics_eventCount:
  "map_of (getMetrics now w) ''eventCount'' = Some (JNum (of_nat (length (stored w))))"
  by (simp add: getMetrics_def map_of_spread stored_def)

lemma getEvents_copy: "arrays (snd (getEvents w)) (fst (getEvents w)) = stored w"
  by (simp add: getEvents_def alloc_array_def stored_def)

lemmas model_defs = constructor_def trackEvent_def Let_def alloc_obj_def alloc_array_def fresh_env_def
  demo_config_def demo_browser_def reads_at_def config_webSocket_def enabled_def getSessionData_def
  getConnectionInfo_def spread_def getQoEMetrics_def updateMetrics_def truthy_str_def sendEvent_def
  bufferingRatio_def Math_round_def generated_or_def blank_def

lemma demo_self: "self demo_world = \<lparr>config = Some demo_config, sessionId = ''s1'', events = 0, sessionStartTime = 1000,
            playbackStartTime = None, totalPlayTime = 0, totalBufferTime = 0,
            bufferStartTime = None, rebufferCount = 0, seekCount = 0,
            webSocket = None, socketIO = None, wsReconnectTimeout = None,
            isDestroyed = False\<rparr>"
  unfolding demo_world_def
  by (simp add: model_defs)

lemma demo_enabled: "enabled (self demo_world)"
  by (simp add: demo_self enabled_def demo_config_def)

lemma map_of_spread_qoe:
  "map_of (spread a (getQoEMetrics t x)) =
     (map_of a)(''sessionDuration'' \<mapsto> JNum (of_int (t - sessionStartTime x)),
                ''totalPlayTime'' \<mapsto> JNum (of_int (totalPlayTime x)),
                ''totalBufferTime'' \<mapsto> JNum (of_int (totalBufferTime x)),
                ''bufferingRatio'' \<mapsto> JNum (fl (of_int (Math_round (fl (bufferingRatio x * 1000))) / 1000)),
                ''rebufferCount'' \<mapsto> JNum (of_nat (rebufferCount x)),
                ''seekCount'' \<mapsto> JNum (of_nat (seekCount x)))"
  by (simp add: spread_def getQoEMetrics_def update_conv')

lemma data_make_event:
  "data (make_event ty d r w) = spread (spread [] (objects w d)) (getQoEMetrics (at_metrics r) (self w))"
  by (simp add: make_event_def)

lemma trackEvent_enabled_parts:
  assumes "enabled (self w)" "trackEvent ty d r w = Normal w'"
  shows "stored w' = stored w @ [make_event ty d r w]" "objects w' = objects w"
    "self w' = updateMetrics ty (at_update r) (self w)"
    "effects w' = effects w @ ws_fx (make_event ty d r w) w @ io_fx (make_event ty d r w) w
                  @ http_fx (make_event ty d r w) w"
  using assms(2) unfolding trackEvent_enabled[OF assms(1)] by (auto simp: stored_def)

lemma fold_mutate:
  "self (fold (mutate a) fs w) = self w" "next_addr (fold (mutate a) fs w) = next_addr w"
  "x \<noteq> a \<Longrightarrow> arrays (fold (mutate a) fs w) x = arrays w x"
  by (induction fs arbitrary: w) (simp_all add: mutate_def)

lemmas ws_model_defs = session_def demo_ws_config_def demo_ws_handler_def initializeWebSocket_def hook_def
  dispatch_def report_def ws_onopen_def ws_onclose_def ws_onerror_def invoke_def set_readyState_def
  console_error_def clearTimeout_def

lemma sendEvent_settled_effects:
  "effects (step (FetchSettles out) w) =
     effects w @ (if inflight w \<noteq> 0 \<and> out = Rejected
                  then [ConsoleError ''Failed to send analytics event:''] else [])"
  "inflight (step (FetchSettles out) w) \<le> inflight w"
  by (simp_all add: sendEvent_settled_def console_error_def split: fetch_outcome.splits)

lemma fx_transform_throws:
  assumes "make_payload (config_webSocket (self w)) ev = Inl e"
  shows "\<forall>x\<in>set (ws_fx ev w @ io_fx ev w). \<not> is_delivery x"
    "webSocket (self w) = Some s \<Longrightarrow> readyState (sockets w s) = OPEN \<Longrightarrow>
       ws_fx ev w = [ConsoleError ''[Analytics WebSocket] Failed to send event:'']"
    "socketIO (self w) = Some i \<Longrightarrow> io_connected w i \<Longrightarrow>
       io_fx ev w = [ConsoleError ''[Analytics Socket.IO] Failed to emit event:'']"
  using assms by (auto simp: ws_fx_def io_fx_def split: option.splits)

lemma demo_ws_open:
  "self (demo_ws_world [WsOpen (Created 0)]) = (self demo_world)\<lparr>config := Some demo_ws_config, webSocket := Some (Created 0)\<rparr>"
  "readyState (sockets (demo_ws_world [WsOpen (Created 0)]) (Created 0)) = OPEN"
  "inflight (demo_ws_world [WsOpen (Created 0)]) = 1"
  "length (effects (demo_ws_world [WsOpen (Created 0)])) = 1"
  unfolding demo_ws_world_def demo_world_def
  by (simp_all add: model_defs ws_model_defs and_then_def state_of_def)

lemma io_gone_step:
  assumes "socketIO (self w) = None" "\<not> io_importing w"
  shows "socketIO (self (step c w)) = None \<and> \<not> io_importing (step c w)"
proof (cases c)
  case (TrackEvent ty p r)
  show ?thesis unfolding TrackEvent using assms
    by (simp add: trackEvent_frame[OF refl] alloc_obj_def)
next
  case (Destroy r b)
  show ?thesis unfolding Destroy using assms by simp
next
  case GetEvents
  show ?thesis unfolding GetEvents using assms by (simp add: getEvents_def alloc_array_def)
next
  case (WsOpen s)
  show ?thesis unfolding WsOpen
    using assms dispatch_state[of ws_onopen "set_readyState s OPEN w" s]
    by (auto simp: set_readyState_def)
next
  case (WsError s)
  have "\<And>c. socketIO (self (report (ws_onerror c w))) = None \<and> \<not> io_importing (report (ws_onerror c w))"
    subgoal for c using assms
      by (cases "ws_onError c"; cases "the (ws_onError c)")
         (auto simp: ws_onerror_def invoke_def report_def console_error_def)
    done
  then show ?thesis unfolding WsError using assms
    by (auto simp: dispatch_def split: option.splits handler.splits)
next
  case (WsClose s)
  have "\<And>c. socketIO (self (report (ws_onclose c (set_readyState s CLOSED w)))) = None
          \<and> \<not> io_importing (report (ws_onclose c (set_readyState s CLOSED w)))"
    subgoal for c using assms
      by (auto simp: ws_onclose_eq report_def scheduled_def set_readyState_def split: option.splits)
    done
  then show ?thesis unfolding WsClose using assms
    by (auto simp: dispatch_def set_readyState_def split: option.splits handler.splits)
next
  case (TimerFires h)
  show ?thesis unfolding TimerFires using assms
    by (simp add: initializeWebSocket_def Let_def hook_def console_error_def clearTimeout_def
        split: option.splits handler.splits connection.splits)
next
  case (IoImported ok)
  show ?thesis unfolding IoImported using assms by simp
next
  case (IoConnect s)
  show ?thesis unfolding IoConnect using assms
    by (auto simp: io_dispatch_def report_def invoke_def console_error_def split: option.splits)
next
  case (IoDisconnect s)
  show ?thesis unfolding IoDisconnect using assms
    by (auto simp: io_dispatch_def report_def invoke_def console_error_def split: option.splits)
next
  case (IoError s)
  show ?thesis unfolding IoError using assms
    by (auto simp: io_dispatch_def report_def invoke_def console_error_def split: option.splits)
next
  case (FetchSettles out)
  show ?thesis unfolding FetchSettles using assms
    by (auto simp: sendEvent_settled_def console_error_def split: fetch_outcome.splits)
qed

lemma io_gone_run:
  "socketIO (self w) = None \<Longrightarrow> \<not> io_importing w \<Longrightarrow> socketIO (self (run cs w)) = None"
proof (induction cs arbitrary: w)
  case Nil
  then show ?case by simp
next
  case (Cons c cs)
  show ?case using Cons.IH[of "step c w"] io_gone_step[OF Cons.prems, of c] by simp
qed

lemma step_TrackEvent_enabled:
  assumes "enabled (self w)"
  shows "stored (step (TrackEvent ty p r) w) = stored w @ [make_event ty (next_addr w) r (alloc_obj p w)]"
    "effects (step (TrackEvent ty p r) w)
       = effects w @ ws_fx (make_event ty (next_addr w) r (alloc_obj p w)) w
         @ io_fx (make_event ty (next_addr w) r (alloc_obj p w)) w
         @ http_fx (make_event ty (next_addr w) r (alloc_obj p w)) w"
proof -
  let ?w = "alloc_obj p w"
  let ?ev = "make_event ty (next_addr w) r ?w"
  have e: "enabled (self ?w)" using assms by (simp add: alloc_obj_def)
  obtain w' where w': "trackEvent ty (next_addr w) r ?w = Normal w'"
    using trackEvent_Normal by blast
  have f: "ws_fx ?ev ?w = ws_fx ?ev w" "io_fx ?ev ?w = io_fx ?ev w" "http_fx ?ev ?w = http_fx ?ev w"
    by (rule ws_fx_cong io_fx_cong http_fx_cong; simp add: alloc_obj_def)+
  show "stored (step (TrackEvent ty p r) w) = stored w @ [?ev]"
    unfolding step.simps w' state_of_simps
    using trackEvent_enabled_parts(1)[OF e w'] by (simp add: stored_def alloc_obj_def)
  show "effects (step (TrackEvent ty p r) w) = effects w @ ws_fx ?ev w @ io_fx ?ev w @ http_fx ?ev w"
    unfolding step.simps w' state_of_simps
    using trackEvent_enabled_parts(4)[OF e w'] f by (simp add: alloc_obj_def)
qed

subsection \<open>Scheduling the reconnect\<close>

lemma initializeWebSocket_counts [simp]:
  "ws_inits (initializeWebSocket w) = Suc (ws_inits w)" "timers (initializeWebSocket w) = timers w"
  by (simp_all add: initializeWebSocket_def Let_def hook_def console_error_def
      split: option.splits handler.splits connection.splits)

lemma close_schedules:
  assumes "coherent w" "webSocket (self w) = Some s" "readyState (sockets w s) \<noteq> CLOSED"
    "config_webSocket (self w) = Some (WebSocketHandler c)" "autoReconnect c \<noteq> Some False"
    "\<not> isDestroyed (self w)" "\<forall>e. ws_onClose c \<noteq> Some (Some e)"
  shows "step (WsClose s) w = scheduled (reconnect_delay c) (set_readyState s CLOSED w)"
    "timers w = []"
proof -
  have hk: "hooked (sockets w s)" using coherentD(5)[OF assms(1,2)] .
  then have lv: "live w s" using assms(3) by (simp add: live_def)
  show "timers w = []" using coherentD(1)[OF assms(1), of s] lv by blast
  have "ws_onclose c (set_readyState s CLOSED w) = Normal (scheduled (reconnect_delay c) (set_readyState s CLOSED w))"
    using assms(5,6,7) by (simp add: ws_onclose_eq split: option.splits)
  then show "step (WsClose s) w = scheduled (reconnect_delay c) (set_readyState s CLOSED w)"
    using assms(3,4) hk by (simp add: dispatch_def)
qed

lemma demo_reconnecting_open:
  "webSocket (self (demo_reconnecting [WsOpen (Created 0)])) = Some (Created 0)"
  "readyState (sockets (demo_reconnecting [WsOpen (Created 0)]) (Created 0)) = OPEN"
  "config_webSocket (self (demo_reconnecting [WsOpen (Created 0)])) = Some (WebSocketHandler demo_quiet_handler)"
  "\<not> isDestroyed (self (demo_reconnecting [WsOpen (Created 0)]))"
  "next_timer (demo_reconnecting [WsOpen (Created 0)]) = 1"
  "ws_inits (demo_reconnecting [WsOpen (Created 0)]) = 1"
  unfolding demo_reconnecting_def demo_quiet_handler_def
  by (simp_all add: model_defs ws_model_defs and_then_def state_of_def)

lemma demo_reconnecting_closed:
  "demo_reconnecting [WsOpen (Created 0), WsClose (Created 0)]
     = step (WsClose (Created 0)) (demo_reconnecting [WsOpen (Created 0)])"
  by (simp add: demo_reconnecting_def session_def del: step.simps)

subsection \<open>The clock\<close>

text \<open>
  \<open>clock_ok\<close> holds after construction and, when the clock readings never decrease, after
  every step: the totals are not negative and no marker lies in the future.
\<close>

lemma clock_ok_acc: "acc a = acc a' \<Longrightarrow> clock_ok now a = clock_ok now a'"
  by (simp add: acc_def clock_ok_def)

lemma clock_ok_mono: "clock_ok now a \<Longrightarrow> now \<le> now' \<Longrightarrow> clock_ok now' a"
  by (auto simp: clock_ok_def)

lemma clock_ok_updateMetrics:
  assumes "clock_ok now a" "now \<le> u"
  shows "clock_ok u (updateMetrics ty u a)"
proof -
  have m: "clock_ok u a" using assms by (rule clock_ok_mono)
  have p: "truthy_num (playbackStartTime a) \<Longrightarrow>
      clock_ok u (a\<lparr>totalPlayTime := totalPlayTime a + (u - the (playbackStartTime a)), playbackStartTime := None\<rparr>)"
    using m by (cases "playbackStartTime a") (simp_all add: clock_ok_def truthy_num_def)
  have b: "truthy_num (bufferStartTime a) \<Longrightarrow>
      clock_ok u (a\<lparr>totalBufferTime := totalBufferTime a + (u - the (bufferStartTime a)), bufferStartTime := None\<rparr>)"
    using m by (cases "bufferStartTime a") (simp_all add: clock_ok_def truthy_num_def)
  have s1: "clock_ok u (a\<lparr>playbackStartTime := Some u\<rparr>)"
    "clock_ok u (a\<lparr>bufferStartTime := Some u, rebufferCount := Suc (rebufferCount a)\<rparr>)"
    "clock_ok u (a\<lparr>seekCount := Suc (seekCount a)\<rparr>)"
    using m by (simp_all add: clock_ok_def)
  show ?thesis
    unfolding updateMetrics_def using m p b s1 by presburger
qed

lemma sorted_reads: "sorted (now # reads_list r @ rest) \<Longrightarrow> now \<le> at_update r \<and> sorted (at_update r # rest)"
  by (auto simp: reads_list_def)

lemma clock_ok_step:
  assumes "clock_ok now (self w)" "sorted (now # call_reads c @ rest)"
  shows "\<exists>now'. clock_ok now' (self (step c w)) \<and> sorted (now' # rest)"
proof (cases c)
  case (TrackEvent ty p r)
  from assms(2) have le: "now \<le> at_update r" "sorted (at_update r # rest)"
    unfolding TrackEvent using sorted_reads[of now r rest] by simp_all
  have "clock_ok (at_update r) (if enabled (self w) then updateMetrics ty (at_update r) (self w) else self w)"
    using clock_ok_updateMetrics[OF assms(1) le(1)] clock_ok_mono[OF assms(1) le(1)] by simp
  then have "clock_ok (at_update r) (self (step c w))"
    using clock_ok_acc[OF acc_step[of c w]] unfolding TrackEvent by simp
  with le(2) show ?thesis by blast
next
  case (Destroy r b)
  have "clock_ok now (self (step c w))"
    using clock_ok_acc[OF acc_step[of c w]] assms(1) unfolding Destroy by simp
  moreover have "sorted (now # rest)"
    using assms(2) unfolding Destroy by (simp add: reads_list_def)
  ultimately show ?thesis by blast
qed (use assms clock_ok_acc[OF acc_step[of c w], of now] in \<open>simp_all del: step.simps\<close>, blast+)

lemma clock_ok_run:
  assumes "clock_ok now (self w)" "sorted (now # concat (map call_reads cs))"
  shows "\<exists>now'. clock_ok now' (self (run cs w))"
  using assms
proof (induction cs arbitrary: now w)
  case Nil
  then show ?case by auto
next
  case (Cons c cs)
  from clock_ok_step[OF Cons.prems(1), of c "concat (map call_reads cs)"] Cons.prems(2)
  obtain now' where "clock_ok now' (self (step c w))" "sorted (now' # concat (map call_reads cs))"
    by auto
  from Cons.IH[OF this] show ?case by simp
qed

lemma acc_constructor:
  "acc (self (state_of (constructor cfg fresh now r b w0))) = acc (self (born cfg fresh now w0))"
proof -
  have w: "acc (self (wired w1)) = acc (self w1)" for w1
    by (simp add: wired_def initializeSocketIO_def split: option.splits handler.splits connection.splits)
  show ?thesis
    by (simp add: constructor_eq Let_def self_trackEvent alloc_obj_def w updateMetrics_other)
qed

lemma clock_ok_constructor: "clock_ok t (self (state_of (constructor cfg fresh now r b w0)))"
  unfolding clock_ok_acc[OF acc_constructor]
  by (simp add: clock_ok_def born_def)

lemma clock_ok_session:
  assumes "sorted (concat (map call_reads cs))"
  shows "\<exists>t. clock_ok t (self (session cfg fresh now r b st conn ok cs))"
proof (cases "concat (map call_reads cs)")
  case Nil
  have "sorted ((0::int) # concat (map call_reads cs))" unfolding Nil by simp
  from clock_ok_run[OF clock_ok_constructor this] show ?thesis
    unfolding session_def by blast
next
  case (Cons t ts)
  then have "sorted (t # concat (map call_reads cs))" using assms by simp
  then show ?thesis
    unfolding session_def using clock_ok_run[OF clock_ok_constructor] by blast
qed

lemma bufferingRatio_nonneg: "0 \<le> totalBufferTime a \<Longrightarrow> 0 \<le> bufferingRatio a"
  by (simp add: bufferingRatio_def fl_sign(1))

lemma getMetrics_bufferingRatio:
  "map_of (getMetrics now w) ''bufferingRatio''
     = Some (JNum (fl (of_int (Math_round (fl (bufferingRatio (self w) * 1000))) / 1000)))"
  by (simp add: getMetrics_def spread_def getQoEMetrics_def update_conv')

lemma demo_session: "session (Some demo_config) ''session_0'' 1000 (reads_at 1000) demo_browser CLOSED False (\<lambda>u. True) cs
    = run cs demo_world"
  by (simp add: session_def demo_world_def)

lemma acc_step_track:
  assumes "enabled (self w)" "acc (self w) = acc a"
  shows "acc (self (step (TrackEvent ty p r) w)) = acc (updateMetrics ty (at_update r) a)"
    "enabled (self (step (TrackEvent ty p r) w))"
  using assms acc_step[of "TrackEvent ty p r" w] acc_updateMetrics_cong[OF assms(2)]
  by (simp_all del: step.simps)

lemma acc_run_playback:
  assumes "t1 \<noteq> 0" "t2 \<noteq> 0"
  shows "totalPlayTime (self (run [TrackEvent ''play'' [] (reads_at t1), TrackEvent ''buffering_start'' [] (reads_at t2),
             TrackEvent ''buffering_end'' [] (reads_at t3), TrackEvent ''pause'' [] (reads_at t4)] demo_world)) = t4 - t1"
    "totalBufferTime (self (run [TrackEvent ''play'' [] (reads_at t1), TrackEvent ''buffering_start'' [] (reads_at t2),
             TrackEvent ''buffering_end'' [] (reads_at t3), TrackEvent ''pause'' [] (reads_at t4)] demo_world)) = t3 - t2"
proof -
  let ?cs = "[TrackEvent ''play'' [] (reads_at t1), TrackEvent ''buffering_start'' [] (reads_at t2),
             TrackEvent ''buffering_end'' [] (reads_at t3), TrackEvent ''pause'' [] (reads_at t4)]"
  note s1 = acc_step_track[OF demo_enabled refl, of "''play''" "[]" "reads_at t1"]
  note s2 = acc_step_track[OF s1(2) s1(1), of "''buffering_start''" "[]" "reads_at t2"]
  note s3 = acc_step_track[OF s2(2) s2(1), of "''buffering_end''" "[]" "reads_at t3"]
  note s4 = acc_step_track[OF s3(2) s3(1), of "''pause''" "[]" "reads_at t4"]
  have a: "acc (self (run ?cs demo_world)) = (Some demo_config, ''s1'', 1000, None, t4 - t1, t3 - t2, None, 1, 0)"
    unfolding run.simps s4(1)
    using assms by (simp add: demo_self updateMetrics_def truthy_num_def reads_at_def acc_def)
  show "totalPlayTime (self (run ?cs demo_world)) = t4 - t1"
    "totalBufferTime (self (run ?cs demo_world)) = t3 - t2"
    using a by (simp_all add: acc_def)
qed

lemma acc_run_demo:
  "totalPlayTime (self (run demo_playback demo_world)) = 5000"
  "totalBufferTime (self (run demo_playback demo_world)) = 500"
  "totalPlayTime (self (run demo_tie_playback demo_world)) = 2000"
  "totalBufferTime (self (run demo_tie_playback demo_world)) = 1001"
  "totalPlayTime (self (run demo_clock_back demo_world)) = 2000"
  "totalBufferTime (self (run demo_clock_back demo_world)) = - 500"
  unfolding demo_playback_def demo_tie_playback_def demo_clock_back_def
  by (simp_all add: acc_run_playback del: run.simps)



lemma close_throws:
  assumes "coherent w" "webSocket (self w) = Some s" "readyState (sockets w s) \<noteq> CLOSED"
    "config_webSocket (self w) = Some (WebSocketHandler c)" "ws_onClose c = Some (Some e)"
  shows "step (WsClose s) w = (set_readyState s CLOSED w)\<lparr>effects := effects w @ [Uncaught e]\<rparr>"
proof -
  have hk: "hooked (sockets w s)" using coherentD(5)[OF assms(1,2)] .
  have "ws_onclose c (set_readyState s CLOSED w) = Throw e (set_readyState s CLOSED w)"
    using assms(5) by (simp add: ws_onclose_eq)
  then show ?thesis
    using assms(3,4) hk by (simp add: dispatch_def report_def set_readyState_def)
qed

lemma demo_opened_throwing:
  "webSocket (self (demo_opened demo_throwing_handler)) = Some (Created 0)"
  "readyState (sockets (demo_opened demo_throwing_handler) (Created 0)) = OPEN"
  "config_webSocket (self (demo_opened demo_throwing_handler)) = Some (WebSocketHandler demo_throwing_handler)"
  "\<not> isDestroyed (self (demo_opened demo_throwing_handler))"
  unfolding demo_opened_def demo_throwing_handler_def demo_quiet_handler_def session_def
  by (simp_all add: model_defs ws_model_defs and_then_def state_of_def)

lemma demo_closed_timers:
  "timers (demo_closed demo_throwing_handler) = []"
  "ws_inits (demo_closed demo_throwing_handler) = 1"
  "wsReconnectTimeout (self (demo_closed demo_throwing_handler)) = None"
  "isDestroyed (self (demo_closed demo_throwing_handler)) = False"
  "timers (demo_closed demo_zero_delay_handler) = [(1, 3000)]"
  unfolding demo_closed_def demo_throwing_handler_def demo_zero_delay_handler_def demo_quiet_handler_def session_def
  by (simp_all add: model_defs ws_model_defs and_then_def state_of_def)

section \<open>Metric accumulation\<close>

text \<open>
  C3. \<^verbatim>\<open>rebufferCount\<close> is 0 when the constructor returns, and on an enabled instance,
  over any sequence of calls and events, it grows by exactly the number of
  \<^verbatim>\<open>buffering_start\<close> notifications tracked, whatever \<^verbatim>\<open>buffering_end\<close> notifications
  arrive. After \<^verbatim>\<open>buffering_start\<close>, \<^verbatim>\<open>buffering_end\<close>,
  \<^verbatim>\<open>buffering_start\<close> it has grown by 2 and \<^verbatim>\<open>totalBufferTime\<close> by the one closed
  interval, the first start being read at a nonzero clock value (a marker of 0 is
  falsy and would count as absent).
\<close>

theorem rebufferCount_counts_starts:
  assumes "enabled (self w)"
  shows "rebufferCount (self (state_of (constructor cfg fresh now r0 b0 w0))) = 0
       \<and> rebufferCount (self (run cs w)) = rebufferCount (self w) + tracked ''buffering_start'' cs
       \<and> (at_update r1 \<noteq> 0 \<longrightarrow>
            rebufferCount (self (run [TrackEvent ''buffering_start'' p1 r1,
                                      TrackEvent ''buffering_end'' p2 r2,
                                      TrackEvent ''buffering_start'' p3 r3] w))
              = rebufferCount (self w) + 2
          \<and> totalBufferTime (self (run [TrackEvent ''buffering_start'' p1 r1,
                                        TrackEvent ''buffering_end'' p2 r2,
                                        TrackEvent ''buffering_start'' p3 r3] w))
              = totalBufferTime (self w) + (at_update r2 - at_update r1))"
proof -
  have "tracked ''buffering_start'' [TrackEvent ''buffering_start'' p1 r1,
          TrackEvent ''buffering_end'' p2 r2, TrackEvent ''buffering_start'' p3 r3] = 2"
    by (simp add: tracked_def)
  moreover have "rebufferCount (self (state_of (constructor cfg fresh now r0 b0 w0))) = 0"
    using acc_constructor[of cfg fresh now r0 b0 w0] by (simp add: acc_def born_def)
  ultimately show ?thesis
    using rebufferCount_run[OF assms] buffering_scenario[OF assms] by metis
qed

theorem rebufferCount_counts_starts_witness:
  "enabled (self demo_world) \<and> at_update (reads_at 2000) \<noteq> 0
   \<and> rebufferCount (self (run [TrackEvent ''buffering_start'' [] (reads_at 2000),
                                TrackEvent ''buffering_end'' [] (reads_at 2500),
                                TrackEvent ''buffering_start'' [] (reads_at 4000)] demo_world)) = 2
   \<and> totalBufferTime (self (run [TrackEvent ''buffering_start'' [] (reads_at 2000),
                                  TrackEvent ''buffering_end'' [] (reads_at 2500),
                                  TrackEvent ''buffering_start'' [] (reads_at 4000)] demo_world)) = 500"
  using rebufferCount_counts_starts [OF demo_enabled, where ?r1.0 = "reads_at 2000" and ?p1.0 = "[]"
      and ?p2.0 = "[]" and ?r2.0 = "reads_at 2500" and ?p3.0 = "[]" and ?r3.0 = "reads_at 4000"]
    demo_enabled
  by (simp add: demo_self reads_at_def tracked_def del: run.simps)




text \<open>
  C5. On any instance constructed in a fresh environment, after any calls and events,
  the \<^verbatim>\<open>bufferingRatio\<close> of \<^verbatim>\<open>getMetrics()\<close> and of the record \<^verbatim>\<open>trackEvent\<close> builds is the
  same number \<open>q\<close>, the double nearest to \<open>k / 1000\<close> where \<open>k\<close> is \<^verbatim>\<open>Math.round\<close> of the
  ratio times 1000, each operation rounded to a double. When \<^verbatim>\<open>totalPlayTime\<close> is
  positive, \<open>k / 1000\<close> lies within 0.0005 of the exact quotient
  \<^verbatim>\<open>totalBufferTime / totalPlayTime\<close> up to a relative error of \<open>2 ^ -51\<close>, and \<open>q\<close> within
  0.0005 of it up to \<open>2 ^ -50\<close>. When \<^verbatim>\<open>totalPlayTime\<close> is not positive, \<open>q\<close> is 0 whatever
  \<^verbatim>\<open>totalBufferTime\<close> is. \<open>q\<close> is not negative when \<^verbatim>\<open>totalBufferTime\<close> is not, and
  \<^verbatim>\<open>totalBufferTime\<close> is not negative when the clock readings of the calls never
  decrease.
\<close>

theorem bufferingRatio_rounded:
  "let w = session cfg fresh t0 r0 b0 st conn ok cs;
       x = of_int (totalBufferTime (self w)) / of_int (totalPlayTime (self w));
       k = Math_round (fl (bufferingRatio (self w) * 1000));
       q = fl (of_int k / 1000)
   in map_of (getMetrics now w) ''bufferingRatio'' = Some (JNum q)
      \<and> map_of (data (make_event ty d r w)) ''bufferingRatio'' = Some (JNum q)
      \<and> (0 < totalPlayTime (self w) \<longrightarrow>
           \<bar>of_int k / 1000 - x\<bar> \<le> 1 / 2000 + \<bar>x\<bar> / 2 ^ 51
           \<and> \<bar>q - x\<bar> \<le> 1 / 2000 + (\<bar>x\<bar> + 1) / 2 ^ 50)
      \<and> (totalPlayTime (self w) \<le> 0 \<longrightarrow> q = 0)
      \<and> (0 \<le> totalBufferTime (self w) \<longrightarrow> 0 \<le> q)
      \<and> (sorted (concat (map call_reads cs)) \<longrightarrow> 0 \<le> totalBufferTime (self w) \<and> 0 \<le> q)"
proof -
  define w where "w = session cfg fresh t0 r0 b0 st conn ok cs"
  define x :: rat where "x = of_int (totalBufferTime (self w)) / of_int (totalPlayTime (self w))"
  define k where "k = Math_round (fl (bufferingRatio (self w) * 1000))"
  define q where "q = fl (of_int k / 1000)"
  have m: "map_of (getMetrics now w) ''bufferingRatio'' = Some (JNum q)"
    by (simp add: getMetrics_bufferingRatio q_def k_def)
  have e: "map_of (data (make_event ty d r w)) ''bufferingRatio'' = Some (JNum q)"
    by (simp add: data_make_event map_of_spread_qoe q_def k_def)
  have p: "\<bar>of_int k / 1000 - x\<bar> \<le> 1 / 2000 + \<bar>x\<bar> / 2 ^ 51
           \<and> \<bar>q - x\<bar> \<le> 1 / 2000 + (\<bar>x\<bar> + 1) / 2 ^ 50" if "0 < totalPlayTime (self w)"
  proof -
    have "k = Math_round (fl (fl x * 1000))"
      using that by (simp add: k_def bufferingRatio_def x_def)
    then show ?thesis
      unfolding q_def using rounded_near[of x] by simp
  qed
  have z: "q = 0" if "totalPlayTime (self w) \<le> 0"
    using that by (simp add: q_def k_def bufferingRatio_def)
  have n: "0 \<le> q" if "0 \<le> totalBufferTime (self w)"
    unfolding q_def k_def using bufferingRatio_nonneg[OF that] by (rule rounded_sign)
  have c: "0 \<le> totalBufferTime (self w)" if "sorted (concat (map call_reads cs))"
  proof -
    from clock_ok_session[OF that, of cfg fresh t0 r0 b0 st conn ok]
    obtain t where "clock_ok t (self w)" unfolding w_def by blast
    then show ?thesis by (simp add: clock_ok_def)
  qed
  show ?thesis
    unfolding Let_def w_def[symmetric] x_def[symmetric] k_def[symmetric] q_def[symmetric]
    using m e p z n c by blast
qed

theorem bufferingRatio_rounded_witness:
  "0 < totalPlayTime (self (run demo_tie_playback demo_world))
   \<and> 0 \<le> totalBufferTime (self (run demo_tie_playback demo_world))
   \<and> sorted (concat (map call_reads demo_tie_playback))
   \<and> map_of (getMetrics 8000 (run demo_tie_playback demo_world)) ''bufferingRatio'' = Some (JNum (1 / 2))
   \<and> map_of (getMetrics 8000 (run demo_playback demo_world)) ''bufferingRatio'' = Some (JNum (fl (1 / 10)))
   \<and> totalPlayTime (self demo_world) \<le> 0
   \<and> map_of (getMetrics 8000 demo_world) ''bufferingRatio'' = Some (JNum 0)"
proof -
  have q1: "fl (of_int (Math_round (fl (fl (of_int 1001 / of_int 2000) * 1000))) / 1000) = 1 / 2"
    by code_simp
  have q2: "fl (of_int (Math_round (fl (fl (of_int 500 / of_int 5000) * 1000))) / 1000) = fl (1 / 10)"
    by code_simp
  have b: "bufferingRatio (self (run demo_tie_playback demo_world)) = fl (of_int 1001 / of_int 2000)"
    "bufferingRatio (self (run demo_playback demo_world)) = fl (of_int 500 / of_int 5000)"
    "bufferingRatio (self demo_world) = 0"
    unfolding bufferingRatio_def acc_run_demo by (simp_all add: demo_self)
  have srt: "sorted (concat (map call_reads demo_tie_playback))"
    by (simp add: demo_tie_playback_def reads_list_def reads_at_def)
  from bufferingRatio_rounded [of "Some demo_config" "''session_0''" 1000 "reads_at 1000"
      demo_browser CLOSED False "\<lambda>u. True" demo_tie_playback 8000 "''play''" 0 "reads_at 8000"]
    bufferingRatio_rounded [of "Some demo_config" "''session_0''" 1000 "reads_at 1000"
      demo_browser CLOSED False "\<lambda>u. True" demo_playback 8000 "''play''" 0 "reads_at 8000"]
    bufferingRatio_rounded [of "Some demo_config" "''session_0''" 1000 "reads_at 1000"
      demo_browser CLOSED False "\<lambda>u. True" "[]" 8000 "''play''" 0 "reads_at 8000"]
  show ?thesis
    unfolding demo_session Let_def b q1 q2 using srt by (simp add: acc_run_demo demo_self)
qed

text \<open>
  With a clock set back by 500 ms between a \<^verbatim>\<open>buffering_start\<close> and its
  \<^verbatim>\<open>buffering_end\<close>, \<^verbatim>\<open>totalBufferTime\<close> is -500 after 2000 ms of playback, and the
  \<^verbatim>\<open>bufferingRatio\<close> of \<^verbatim>\<open>getMetrics()\<close> is -0.25: nothing clamps it.
\<close>

theorem bufferingRatio_negative_clock_set_back:
  "totalPlayTime (self (run demo_clock_back demo_world)) = 2000
   \<and> totalBufferTime (self (run demo_clock_back demo_world)) = - 500
   \<and> map_of (getMetrics 8000 (run demo_clock_back demo_world)) ''bufferingRatio'' = Some (JNum (- 1 / 4))
   \<and> (- 1 / 4 :: rat) < 0"
proof -
  have q: "fl (of_int (Math_round (fl (fl (of_int (- 500) / of_int 2000) * 1000))) / 1000) = - 1 / 4"
    by code_simp
  have b: "bufferingRatio (self (run demo_clock_back demo_world)) = fl (of_int (- 500) / of_int 2000)"
    unfolding bufferingRatio_def acc_run_demo by simp
  show ?thesis
    unfolding getMetrics_bufferingRatio b q by (simp add: acc_run_demo)
qed

section \<open>Lifecycle\<close>

text \<open>
  C9. \<^verbatim>\<open>destroy()\<close> returns normally, and in the state it leaves the stored sequence is
  empty: \<^verbatim>\<open>getEvents()\<close> returns an empty array and \<^verbatim>\<open>getMetrics().eventCount\<close> is 0, so
  neither an earlier record nor the \<^verbatim>\<open>session_end\<close> record of \<^verbatim>\<open>destroy()\<close> itself can
  be retrieved.
\<close>

theorem destroy_empties_events:
  "\<exists>w'. destroy r b w = Normal w' \<and> stored w' = []
        \<and> arrays (snd (getEvents w')) (fst (getEvents w')) = []
        \<and> map_of (getMetrics now w') ''eventCount'' = Some (JNum 0)"
proof -
  define w' where "w' = reset_events (destroy_socketIO (destroy_webSocket (destroy_timeout (session_end r b w))))"
  have d: "destroy r b w = Normal w'"
    unfolding w'_def by (rule destroy_eq')
  have e: "stored w' = []"
    unfolding w'_def by (rule stored_reset_events)
  have "arrays (snd (getEvents w')) (fst (getEvents w')) = []"
    using e by (simp add: getEvents_copy)
  moreover have "map_of (getMetrics now w') ''eventCount'' = Some (JNum 0)"
    using e by (simp add: getMetrics_eventCount)
  ultimately show ?thesis using d e by blast
qed

theorem destroy_empties_events_witness:
  "length (stored demo_world) = 1
   \<and> (\<exists>w'. destroy (reads_at 2000) demo_browser demo_world = Normal w' \<and> stored w' = []
         \<and> arrays (snd (getEvents w')) (fst (getEvents w')) = []
         \<and> map_of (getMetrics 3000 w') ''eventCount'' = Some (JNum 0))"
proof -
  have "length (stored demo_world) = 1"
    unfolding demo_world_def by (simp add: model_defs stored_def and_then_def state_of_def)
  then show ?thesis
    using destroy_empties_events [of "reads_at 2000" demo_browser demo_world 3000] by simp
qed

text \<open>
  C8. On any instance constructed in a fresh environment, after any calls and events,
  \<^verbatim>\<open>getEvents()\<close> returns a newly allocated array, different from the internal one and
  holding the same records. Whatever in-place changes are then made to the returned
  array, the internal sequence stays as it was, and a later \<^verbatim>\<open>getEvents()\<close> returns yet
  another array, holding the unchanged sequence.
\<close>

theorem getEvents_defensive_copy:
  "let w = session cfg fresh now r b st conn ok cs;
       a = fst (getEvents w);
       w1 = snd (getEvents w);
       w2 = fold (mutate a) fs w1
   in a \<noteq> events (self w) \<and> arrays w1 a = stored w \<and> stored w1 = stored w
      \<and> stored w2 = stored w
      \<and> arrays (snd (getEvents w2)) (fst (getEvents w2)) = stored w
      \<and> fst (getEvents w2) \<noteq> a"
proof -
  define w where "w = session cfg fresh now r b st conn ok cs"
  define w1 where "w1 = snd (getEvents w)"
  define w2 where "w2 = fold (mutate (next_addr w)) fs w1"
  have lt: "events (self w) < next_addr w"
    unfolding w_def by (rule coherentD(6)[OF coherent_session])
  have s1: "self w1 = self w" "next_addr w1 = Suc (next_addr w)" "arrays w1 (next_addr w) = stored w"
    "stored w1 = stored w"
    using lt by (simp_all add: w1_def getEvents_def alloc_array_def stored_def)
  have s2: "stored w2 = stored w"
    using lt s1 fold_mutate(3)[of "events (self w)" "next_addr w" fs w1]
    by (simp add: stored_def w2_def fold_mutate(1))
  have n2: "next_addr w2 = Suc (next_addr w)"
    by (simp add: w2_def fold_mutate(2) s1)
  have g: "getEvents w = (next_addr w, w1)"
    by (simp add: w1_def getEvents_def)
  have g2: "fst (getEvents w2) = next_addr w2"
    by (simp add: getEvents_def)
  have c2: "arrays (snd (getEvents w2)) (fst (getEvents w2)) = stored w"
    by (simp add: getEvents_copy s2)
  have ne: "fst (getEvents w2) \<noteq> next_addr w"
    using g2 n2 by simp
  show ?thesis
    unfolding Let_def w_def[symmetric] g fst_conv snd_conv w2_def[symmetric]
    using lt s1 s2 c2 ne by simp
qed

theorem getEvents_defensive_copy_witness:
  "stored (fold (mutate (fst (getEvents demo_world))) [\<lambda>xs. [], \<lambda>xs. xs @ xs] (snd (getEvents demo_world)))
     = stored demo_world
   \<and> length (stored demo_world) = 1"
proof -
  have d: "demo_world = session (Some demo_config) ''session_0'' 1000 (reads_at 1000) demo_browser CLOSED False (\<lambda>u. True) []"
    by (simp add: session_def demo_world_def)
  have "length (stored demo_world) = 1"
    unfolding demo_world_def by (simp add: model_defs stored_def and_then_def state_of_def)
  then show ?thesis
    using getEvents_defensive_copy [of "Some demo_config" "''session_0''" 1000 "reads_at 1000" demo_browser
      CLOSED False "\<lambda>u. True" "[]" "[\<lambda>xs. [], \<lambda>xs. xs @ xs]"]
    unfolding d[symmetric] Let_def by blast
qed

section \<open>Building and delivering a record\<close>

text \<open>
  C10. On an enabled instance \<^verbatim>\<open>trackEvent\<close> stores, and hands to the sinks, a record whose
  \<^verbatim>\<open>data\<close> carries under each of \<^verbatim>\<open>sessionDuration\<close>, \<^verbatim>\<open>totalPlayTime\<close>, \<^verbatim>\<open>totalBufferTime\<close>,
  \<^verbatim>\<open>bufferingRatio\<close>, \<^verbatim>\<open>rebufferCount\<close> and \<^verbatim>\<open>seekCount\<close> the value derived from the
  instance, whatever the caller's object holds under that key; every other key has the
  caller's value; and no object of the heap, the caller's among them, is changed.
\<close>

theorem derived_metrics_override_payload:
  assumes "enabled (self w)"
  shows "\<exists>w' ev. trackEvent ty d r w = Normal w'
          \<and> stored w' = stored w @ [ev]
          \<and> effects w' = effects w @ ws_fx ev w @ io_fx ev w @ http_fx ev w
          \<and> map_of (data ev) ''sessionDuration'' = Some (JNum (of_int (at_metrics r - sessionStartTime (self w))))
          \<and> map_of (data ev) ''totalPlayTime'' = Some (JNum (of_int (totalPlayTime (self w))))
          \<and> map_of (data ev) ''totalBufferTime'' = Some (JNum (of_int (totalBufferTime (self w))))
          \<and> map_of (data ev) ''bufferingRatio''
              = Some (JNum (fl (of_int (Math_round (fl (bufferingRatio (self w) * 1000))) / 1000)))
          \<and> map_of (data ev) ''rebufferCount'' = Some (JNum (of_nat (rebufferCount (self w))))
          \<and> map_of (data ev) ''seekCount'' = Some (JNum (of_nat (seekCount (self w))))
          \<and> (\<forall>k. k \<notin> {''sessionDuration'', ''totalPlayTime'', ''totalBufferTime'', ''bufferingRatio'',
                        ''rebufferCount'', ''seekCount''}
                 \<longrightarrow> map_of (data ev) k = map_of (spread [] (objects w d)) k)
          \<and> objects w' = objects w"
proof -
  obtain w' where w': "trackEvent ty d r w = Normal w'"
    using trackEvent_Normal by blast
  show ?thesis
    apply (rule exI[of _ w'], rule exI[of _ "make_event ty d r w"])
    apply (simp add: w' trackEvent_enabled_parts[OF assms w'] data_make_event map_of_spread_qoe)
    done
qed

theorem derived_metrics_override_payload_witness:
  "enabled (self demo_world)
   \<and> ''position'' \<notin> {''sessionDuration'', ''totalPlayTime'', ''totalBufferTime'', ''bufferingRatio'',
                       ''rebufferCount'', ''seekCount''}
   \<and> (\<exists>w' ev. trackEvent ''seeked'' 7 (reads_at 2000) (demo_world\<lparr>objects := (objects demo_world)(7 := demo_payload)\<rparr>) = Normal w'
         \<and> stored w' = stored demo_world @ [ev]
         \<and> map_of (data ev) ''seekCount'' = Some (JNum 0)
         \<and> map_of (data ev) ''position'' = Some (JNum 12)
         \<and> objects w' 7 = demo_payload)"
proof -
  let ?w = "demo_world\<lparr>objects := (objects demo_world)(7 := demo_payload)\<rparr>"
  have e: "enabled (self ?w)" using demo_enabled by simp
  from derived_metrics_override_payload [OF e, of "''seeked''" 7 "reads_at 2000"]
  obtain w' ev where *: "trackEvent ''seeked'' 7 (reads_at 2000) ?w = Normal w'"
    "stored w' = stored ?w @ [ev]" "map_of (data ev) ''seekCount'' = Some (JNum (of_nat (seekCount (self ?w))))"
    "\<forall>k. k \<notin> {''sessionDuration'', ''totalPlayTime'', ''totalBufferTime'', ''bufferingRatio'',
                        ''rebufferCount'', ''seekCount''}
                 \<longrightarrow> map_of (data ev) k = map_of (spread [] (objects ?w 7)) k"
     "objects w' = objects ?w"
    by blast
  have "map_of (data ev) ''position'' = Some (JNum 12)"
    using *(4) by (simp add: demo_payload_def spread_def)
  moreover have "map_of (data ev) ''seekCount'' = Some (JNum 0)"
    using *(3) by (simp add: demo_self)
  moreover have "stored w' = stored demo_world @ [ev]"
    using *(2) by (simp add: stored_def)
  ultimately show ?thesis using * demo_enabled by simp
qed




section \<open>Failures and teardown\<close>

text \<open>
  C7, as the code has it. \<^verbatim>\<open>trackEvent\<close> always returns normally. When the transform
  throws on a record, no socket delivery of that record is made, each connected socket
  sink logs the failure, and the record is still stored and still posted to the
  endpoint. When a request settles, nothing is posted again; a rejected \<^verbatim>\<open>fetch\<close> (a
  network error) is logged, and an HTTP response, whatever its status, is not.
\<close>

theorem delivery_failures_contained:
  "(\<exists>w'. trackEvent ty d r w = Normal w')
   \<and> (enabled (self w) \<and> make_payload (config_webSocket (self w)) (make_event ty d r w) = Inl e \<longrightarrow>
        (\<exists>w'. trackEvent ty d r w = Normal w'
            \<and> stored w' = stored w @ [make_event ty d r w]
            \<and> effects w' = effects w @ ws_fx (make_event ty d r w) w @ io_fx (make_event ty d r w) w
                            @ http_fx (make_event ty d r w) w
            \<and> (\<forall>x\<in>set (ws_fx (make_event ty d r w) w @ io_fx (make_event ty d r w) w). \<not> is_delivery x)
            \<and> (webSocket (self w) = Some s \<and> readyState (sockets w s) = OPEN \<longrightarrow>
                 ws_fx (make_event ty d r w) w = [ConsoleError ''[Analytics WebSocket] Failed to send event:''])
            \<and> (socketIO (self w) = Some i \<and> io_connected w i \<longrightarrow>
                 io_fx (make_event ty d r w) w = [ConsoleError ''[Analytics Socket.IO] Failed to emit event:''])))
   \<and> effects (step (FetchSettles out) w) =
        effects w @ (if inflight w \<noteq> 0 \<and> out = Rejected
                     then [ConsoleError ''Failed to send analytics event:''] else [])
   \<and> inflight (step (FetchSettles out) w) \<le> inflight w"
proof -
  obtain w' where w': "trackEvent ty d r w = Normal w'"
    using trackEvent_Normal by blast
  have "enabled (self w) \<Longrightarrow> make_payload (config_webSocket (self w)) (make_event ty d r w) = Inl e \<Longrightarrow>
        stored w' = stored w @ [make_event ty d r w]
            \<and> effects w' = effects w @ ws_fx (make_event ty d r w) w @ io_fx (make_event ty d r w) w
                            @ http_fx (make_event ty d r w) w
            \<and> (\<forall>x\<in>set (ws_fx (make_event ty d r w) w @ io_fx (make_event ty d r w) w). \<not> is_delivery x)
            \<and> (webSocket (self w) = Some s \<and> readyState (sockets w s) = OPEN \<longrightarrow>
                 ws_fx (make_event ty d r w) w = [ConsoleError ''[Analytics WebSocket] Failed to send event:''])
            \<and> (socketIO (self w) = Some i \<and> io_connected w i \<longrightarrow>
                 io_fx (make_event ty d r w) w = [ConsoleError ''[Analytics Socket.IO] Failed to emit event:''])"
    using trackEvent_enabled_parts[OF _ w'] fx_transform_throws[of w "make_event ty d r w" e]
    by blast
  then show ?thesis
    using w' sendEvent_settled_effects[of out w] by blast
qed

theorem delivery_failures_contained_witness:
  "enabled (self (demo_ws_world [WsOpen (Created 0)]))
   \<and> make_payload (config_webSocket (self (demo_ws_world [WsOpen (Created 0)])))
        (make_event ''play'' 0 (reads_at 2000) (demo_ws_world [WsOpen (Created 0)]))
        = Inl (Exn ''transform failed'')
   \<and> webSocket (self (demo_ws_world [WsOpen (Created 0)])) = Some (Created 0)
   \<and> readyState (sockets (demo_ws_world [WsOpen (Created 0)]) (Created 0)) = OPEN
   \<and> (\<exists>w'. trackEvent ''play'' 0 (reads_at 2000) (demo_ws_world [WsOpen (Created 0)]) = Normal w'
         \<and> length (stored w') = Suc (length (stored (demo_ws_world [WsOpen (Created 0)])))
         \<and> length (effects w') = 3)
   \<and> inflight (demo_ws_world [WsOpen (Created 0)]) \<noteq> 0
   \<and> effects (step (FetchSettles Rejected) (demo_ws_world [WsOpen (Created 0)]))
       = effects (demo_ws_world [WsOpen (Created 0)]) @ [ConsoleError ''Failed to send analytics event:'']"
proof -
  let ?w = "demo_ws_world [WsOpen (Created 0)]"
  let ?ev = "make_event ''play'' 0 (reads_at 2000) ?w"
  have e: "enabled (self ?w)"
    by (simp add: demo_ws_open demo_self enabled_def demo_ws_config_def demo_config_def)
  have t: "make_payload (config_webSocket (self ?w)) ?ev = Inl (Exn ''transform failed'')"
    by (simp add: demo_ws_open make_payload_def config_webSocket_def demo_ws_config_def
        handler_transform_def demo_ws_handler_def failing_transform_def)
  have h: "http_fx ?ev ?w = [HttpPost ''https://collector.example/events'' ?ev]"
    by (simp add: http_fx_def demo_ws_open demo_ws_config_def demo_config_def truthy_str_def)
  have i: "io_fx ?ev ?w = []"
    by (simp add: io_fx_def demo_ws_open demo_self)
  from delivery_failures_contained [of "''play''" 0 "reads_at 2000" ?w "Exn ''transform failed''"
      "Created 0" IoAdopted Rejected]
  show ?thesis
    using e t h i demo_ws_open by (auto simp: demo_self)
qed

text \<open>
  The request of the example instance answered with status 500: it is no longer in
  flight and nothing has been logged.
\<close>

theorem http_error_status_not_logged:
  "inflight demo_world = 1
   \<and> inflight (step (FetchSettles (Responded 500)) demo_world) = 0
   \<and> filter is_console_error (effects (step (FetchSettles (Responded 500)) demo_world)) = []"
  unfolding demo_world_def
  by (simp add: model_defs sendEvent_settled_def and_then_def state_of_def)

text \<open>
  C1, as the code has it. Take any instance constructed in a fresh environment, after
  any calls and events; call \<^verbatim>\<open>destroy()\<close>; let anything happen afterwards. Then
  \<^verbatim>\<open>trackEvent\<close> still returns normally. On a disabled instance it changes nothing. On an
  enabled instance it appends the record and posts it when an endpoint is configured,
  sends nothing on the WebSocket, and nothing on Socket.IO either when the import of
  the Socket.IO client was not pending at \<^verbatim>\<open>destroy()\<close>.
\<close>

theorem trackEvent_after_destroy:
  "let w = session cfg fresh now r0 b0 st conn ok cs;
       wd = state_of (destroy r b w);
       w2 = run cs' wd
   in \<exists>w3. trackEvent ty d r' w2 = Normal w3
        \<and> webSocket (self w2) = None
        \<and> (\<not> enabled (self w) \<longrightarrow> w3 = w2)
        \<and> (enabled (self w) \<longrightarrow>
              stored w3 = stored w2 @ [make_event ty d r' w2]
            \<and> effects w3 = effects w2 @ io_fx (make_event ty d r' w2) w2 @ http_fx (make_event ty d r' w2) w2
            \<and> (\<not> io_importing w \<longrightarrow> io_fx (make_event ty d r' w2) w2 = []))"
proof -
  define w where "w = session cfg fresh now r0 b0 st conn ok cs"
  define wd where "wd = state_of (destroy r b w)"
  define w2 where "w2 = run cs' wd"
  have c: "coherent w" unfolding w_def by (rule coherent_session)
  have td: "torn_down wd" unfolding wd_def using c by (simp add: destroy_torn_down)
  have t2: "torn_down w2" unfolding w2_def using torn_down_run[OF td] by simp
  have e2: "enabled (self w2) = enabled (self w)"
  proof -
    have "enabled (self w2) = enabled (self wd)" by (simp add: w2_def)
    also have "\<dots> = enabled (self w)" by (simp add: wd_def enabled_def)
    finally show ?thesis .
  qed
  obtain w3 where w3: "trackEvent ty d r' w2 = Normal w3"
    using trackEvent_Normal by blast
  have ws: "ws_fx (make_event ty d r' w2) w2 = []"
    using t2 by (simp add: ws_fx_Nil torn_down_def)
  have io: "\<not> io_importing w \<Longrightarrow> io_fx (make_event ty d r' w2) w2 = []"
  proof -
    assume "\<not> io_importing w"
    then have "socketIO (self w2) = None"
      unfolding w2_def by (intro io_gone_run) (simp_all add: wd_def)
    then show ?thesis by (simp add: io_fx_Nil)
  qed
  have dis: "\<not> enabled (self w) \<Longrightarrow> w3 = w2"
    using w3 e2 by (simp add: trackEvent_disabled)
  have en: "enabled (self w) \<Longrightarrow> stored w3 = stored w2 @ [make_event ty d r' w2]
      \<and> effects w3 = effects w2 @ io_fx (make_event ty d r' w2) w2 @ http_fx (make_event ty d r' w2) w2"
    using trackEvent_enabled_parts[OF _ w3] e2 ws by simp
  have nows: "webSocket (self w2) = None"
    using t2 by (simp add: torn_down_def)
  show ?thesis
    unfolding Let_def w_def[symmetric] wd_def[symmetric] w2_def[symmetric]
    using w3 nows dis en io by blast
qed

theorem trackEvent_after_destroy_witness:
  "enabled (self demo_world) \<and> \<not> io_importing demo_world
   \<and> (\<exists>w3. trackEvent ''play'' 0 (reads_at 3000) (state_of (destroy (reads_at 2000) demo_browser demo_world)) = Normal w3
         \<and> length (stored w3) = 1
         \<and> length (effects w3) = Suc (length (effects (state_of (destroy (reads_at 2000) demo_browser demo_world)))))"
proof -
  let ?wd = "state_of (destroy (reads_at 2000) demo_browser demo_world)"
  let ?ev = "make_event ''play'' 0 (reads_at 3000) ?wd"
  have d: "demo_world = session (Some demo_config) ''session_0'' 1000 (reads_at 1000) demo_browser CLOSED False (\<lambda>u. True) []"
    by (simp add: session_def demo_world_def)
  have ni: "\<not> io_importing demo_world"
    unfolding demo_world_def by (simp add: model_defs and_then_def state_of_def)
  have h: "http_fx ?ev ?wd = [HttpPost ''https://collector.example/events'' ?ev]"
    by (simp add: http_fx_def demo_self demo_config_def truthy_str_def)
  from trackEvent_after_destroy [of "Some demo_config" "''session_0''" 1000 "reads_at 1000" demo_browser
      CLOSED False "\<lambda>u. True" "[]" "reads_at 2000" demo_browser "[]" "''play''" 0 "reads_at 3000"]
  show ?thesis
    unfolding d[symmetric] Let_def using demo_enabled ni h by auto
qed

text \<open>
  The example instance after \<^verbatim>\<open>destroy()\<close>: one more \<^verbatim>\<open>play\<close> notification is stored and
  posted.
\<close>

theorem trackEvent_after_destroy_still_records:
  "stored demo_destroyed = []
   \<and> map eventType (stored (step (TrackEvent ''play'' [] (reads_at 3000)) demo_destroyed)) = [''play'']
   \<and> length (filter is_post (effects (step (TrackEvent ''play'' [] (reads_at 3000)) demo_destroyed)))
       = Suc (length (filter is_post (effects demo_destroyed)))"
proof -
  let ?ev = "make_event ''play'' (next_addr demo_destroyed) (reads_at 3000) (alloc_obj [] demo_destroyed)"
  have c: "config (self demo_destroyed) = Some demo_config"
    by (simp add: demo_destroyed_def demo_self)
  then have e: "enabled (self demo_destroyed)"
    by (simp add: enabled_def demo_config_def)
  have s: "stored demo_destroyed = []"
    by (simp add: demo_destroyed_def)
  have w: "ws_fx ?ev demo_destroyed = []"
    by (rule ws_fx_Nil) (simp add: demo_destroyed_def destroy_eq')
  have i: "io_fx ?ev demo_destroyed = []"
    by (rule io_fx_Nil) (simp add: demo_destroyed_def)
  have h: "http_fx ?ev demo_destroyed = [HttpPost ''https://collector.example/events'' ?ev]"
    by (simp add: http_fx_def c demo_config_def truthy_str_def)
  show ?thesis
    unfolding step_TrackEvent_enabled[OF e] s w i h by (simp add: make_event_def)
qed

text \<open>
  C6. Take any instance constructed in a fresh environment, after any calls and events.
  If its WebSocket has not closed yet, \<^verbatim>\<open>autoReconnect\<close> is not \<^verbatim>\<open>false\<close> and \<^verbatim>\<open>destroy()\<close> has
  not been called, then no timer is pending. When the socket then closes and the
  \<^verbatim>\<open>onClose\<close> callback (if any) returns, exactly one timer is scheduled, with delay
  \<^verbatim>\<open>reconnectDelay\<close>, or 3000 when that is unset or 0, its handle stored in
  \<^verbatim>\<open>wsReconnectTimeout\<close>; no connection is attempted until it fires, and when it fires
  exactly one is. When the \<^verbatim>\<open>onClose\<close> callback throws, no timer is scheduled and the
  exception is left uncaught. After \<^verbatim>\<open>destroy()\<close> no timer is pending, and whatever
  happens later none is ever pending again and no connection is attempted.
\<close>

theorem reconnect_scheduled_once_then_cancelled:
  "let w = session cfg fresh now r0 b0 st conn ok cs in
     (webSocket (self w) = Some s \<and> readyState (sockets w s) \<noteq> CLOSED
        \<and> config_webSocket (self w) = Some (WebSocketHandler c)
        \<and> autoReconnect c \<noteq> Some False \<and> \<not> isDestroyed (self w)
      \<longrightarrow> timers w = []
          \<and> ((\<forall>e. ws_onClose c \<noteq> Some (Some e)) \<longrightarrow>
                timers (step (WsClose s) w)
                  = [(next_timer w, case reconnectDelay c of None \<Rightarrow> 3000
                                    | Some d \<Rightarrow> if d = 0 then 3000 else d)]
              \<and> wsReconnectTimeout (self (step (WsClose s) w)) = Some (next_timer w)
              \<and> ws_inits (step (WsClose s) w) = ws_inits w
              \<and> ws_inits (step (TimerFires (next_timer w)) (step (WsClose s) w)) = Suc (ws_inits w)
              \<and> timers (step (TimerFires (next_timer w)) (step (WsClose s) w)) = [])
          \<and> (\<forall>e. ws_onClose c = Some (Some e) \<longrightarrow>
                timers (step (WsClose s) w) = []
              \<and> wsReconnectTimeout (self (step (WsClose s) w)) = wsReconnectTimeout (self w)
              \<and> effects (step (WsClose s) w) = effects w @ [Uncaught e]))
   \<and> timers (state_of (destroy r b w)) = []
   \<and> timers (run cs' (state_of (destroy r b w))) = []
   \<and> ws_inits (run cs' (state_of (destroy r b w))) = ws_inits w"
proof -
  define w where "w = session cfg fresh now r0 b0 st conn ok cs"
  have c: "coherent w" unfolding w_def by (rule coherent_session)
  have td: "torn_down (state_of (destroy r b w))" using c by (simp add: destroy_torn_down)
  have after: "timers (state_of (destroy r b w)) = []"
    "timers (run cs' (state_of (destroy r b w))) = []"
    "ws_inits (run cs' (state_of (destroy r b w))) = ws_inits w"
    using td torn_down_run[OF td, of cs'] by (simp_all add: torn_down_def)
  have idle: "timers w = []"
    if h: "webSocket (self w) = Some s" "readyState (sockets w s) \<noteq> CLOSED"
  proof -
    have "live w s" using coherentD(5)[OF c h(1)] h(2) by (simp add: live_def)
    then show ?thesis using coherentD(1)[OF c, of s] by blast
  qed
  have returns: "timers (step (WsClose s) w)
                  = [(next_timer w, case reconnectDelay c of None \<Rightarrow> 3000
                                    | Some d \<Rightarrow> if d = 0 then 3000 else d)]
          \<and> wsReconnectTimeout (self (step (WsClose s) w)) = Some (next_timer w)
          \<and> ws_inits (step (WsClose s) w) = ws_inits w
          \<and> ws_inits (step (TimerFires (next_timer w)) (step (WsClose s) w)) = Suc (ws_inits w)
          \<and> timers (step (TimerFires (next_timer w)) (step (WsClose s) w)) = []"
    if h: "webSocket (self w) = Some s" "readyState (sockets w s) \<noteq> CLOSED"
      "config_webSocket (self w) = Some (WebSocketHandler c)" "autoReconnect c \<noteq> Some False"
      "\<not> isDestroyed (self w)" "\<forall>e. ws_onClose c \<noteq> Some (Some e)"
  proof -
    note cs = close_schedules[OF c h]
    have t: "timers (step (WsClose s) w) = [(next_timer w, reconnect_delay c)]"
      unfolding cs(1) using cs(2) by (simp add: scheduled_def)
    have f: "step (TimerFires (next_timer w)) (step (WsClose s) w)
          = initializeWebSocket (clearTimeout (next_timer w) (step (WsClose s) w))"
      using t by simp
    show ?thesis
      unfolding f using t cs(2) unfolding cs(1) reconnect_delay_def
      by (simp add: scheduled_def clearTimeout_def set_readyState_def)
  qed
  have throws: "timers (step (WsClose s) w) = []
              \<and> wsReconnectTimeout (self (step (WsClose s) w)) = wsReconnectTimeout (self w)
              \<and> effects (step (WsClose s) w) = effects w @ [Uncaught e]"
    if h: "webSocket (self w) = Some s" "readyState (sockets w s) \<noteq> CLOSED"
      "config_webSocket (self w) = Some (WebSocketHandler c)" "ws_onClose c = Some (Some e)" for e
    unfolding close_throws[OF c h] using idle[OF h(1,2)] by (simp add: set_readyState_def)
  show ?thesis
    unfolding Let_def w_def[symmetric] using idle returns throws after by blast
qed

theorem reconnect_scheduled_once_then_cancelled_witness:
  "webSocket (self (demo_reconnecting [WsOpen (Created 0)])) = Some (Created 0)
   \<and> readyState (sockets (demo_reconnecting [WsOpen (Created 0)]) (Created 0)) \<noteq> CLOSED
   \<and> config_webSocket (self (demo_reconnecting [WsOpen (Created 0)])) = Some (WebSocketHandler demo_quiet_handler)
   \<and> autoReconnect demo_quiet_handler \<noteq> Some False
   \<and> \<not> isDestroyed (self (demo_reconnecting [WsOpen (Created 0)]))
   \<and> (\<forall>e. ws_onClose demo_quiet_handler \<noteq> Some (Some e))
   \<and> timers (demo_reconnecting [WsOpen (Created 0), WsClose (Created 0)]) = [(1, 500)]
   \<and> ws_inits (step (TimerFires 1) (demo_reconnecting [WsOpen (Created 0), WsClose (Created 0)])) = 2
   \<and> timers (state_of (destroy (reads_at 2000) demo_browser
                 (demo_reconnecting [WsOpen (Created 0), WsClose (Created 0)]))) = []
   \<and> ws_inits (run [TimerFires 1] (state_of (destroy (reads_at 2000) demo_browser
                 (demo_reconnecting [WsOpen (Created 0), WsClose (Created 0)])))) = 1
   \<and> webSocket (self (demo_opened demo_throwing_handler)) = Some (Created 0)
   \<and> readyState (sockets (demo_opened demo_throwing_handler) (Created 0)) \<noteq> CLOSED
   \<and> config_webSocket (self (demo_opened demo_throwing_handler)) = Some (WebSocketHandler demo_throwing_handler)
   \<and> autoReconnect demo_throwing_handler \<noteq> Some False
   \<and> \<not> isDestroyed (self (demo_opened demo_throwing_handler))
   \<and> ws_onClose demo_throwing_handler = Some (Some (Exn ''onClose failed''))
   \<and> timers (step (WsClose (Created 0)) (demo_opened demo_throwing_handler)) = []
   \<and> effects (step (WsClose (Created 0)) (demo_opened demo_throwing_handler))
       = effects (demo_opened demo_throwing_handler) @ [Uncaught (Exn ''onClose failed'')]"
proof -
  have h: "autoReconnect demo_quiet_handler \<noteq> Some False" "\<forall>e. ws_onClose demo_quiet_handler \<noteq> Some (Some e)"
    "reconnectDelay demo_quiet_handler = Some 500"
    by (simp_all add: demo_quiet_handler_def demo_ws_handler_def)
  have t: "autoReconnect demo_throwing_handler \<noteq> Some False"
    "ws_onClose demo_throwing_handler = Some (Some (Exn ''onClose failed''))"
    by (simp_all add: demo_throwing_handler_def demo_quiet_handler_def demo_ws_handler_def)
  from reconnect_scheduled_once_then_cancelled [of
      "Some (demo_config\<lparr>cfg_webSocket := Some (WebSocketHandler demo_throwing_handler)\<rparr>)"
      "''session_0''" 1000 "reads_at 1000" demo_browser CLOSED False "\<lambda>u. True" "[WsOpen (Created 0)]"
      "Created 0" demo_throwing_handler]
  have d: "timers (step (WsClose (Created 0)) (demo_opened demo_throwing_handler)) = []"
    "effects (step (WsClose (Created 0)) (demo_opened demo_throwing_handler))
       = effects (demo_opened demo_throwing_handler) @ [Uncaught (Exn ''onClose failed'')]"
    unfolding demo_opened_def[symmetric] Let_def
    using t by (simp_all add: demo_opened_throwing del: step.simps)
  from reconnect_scheduled_once_then_cancelled [of
      "Some (demo_config\<lparr>cfg_webSocket := Some (WebSocketHandler demo_quiet_handler)\<rparr>)"
      "''session_0''" 1000 "reads_at 1000" demo_browser CLOSED False "\<lambda>u. True" "[WsOpen (Created 0)]"
      "Created 0" demo_quiet_handler]
  have a: "timers (demo_reconnecting [WsOpen (Created 0), WsClose (Created 0)]) = [(1, 500)]"
    "ws_inits (step (TimerFires 1) (demo_reconnecting [WsOpen (Created 0), WsClose (Created 0)])) = 2"
    unfolding demo_reconnecting_def[symmetric] Let_def demo_reconnecting_closed
    using h by (simp_all add: demo_reconnecting_open del: step.simps)
  from reconnect_scheduled_once_then_cancelled [of
      "Some (demo_config\<lparr>cfg_webSocket := Some (WebSocketHandler demo_quiet_handler)\<rparr>)"
      "''session_0''" 1000 "reads_at 1000" demo_browser CLOSED False "\<lambda>u. True"
      "[WsOpen (Created 0), WsClose (Created 0)]" "Created 0" demo_quiet_handler
      "reads_at 2000" demo_browser "[TimerFires 1]"]
  have b: "timers (state_of (destroy (reads_at 2000) demo_browser
                 (demo_reconnecting [WsOpen (Created 0), WsClose (Created 0)]))) = []"
    "ws_inits (run [TimerFires 1] (state_of (destroy (reads_at 2000) demo_browser
                 (demo_reconnecting [WsOpen (Created 0), WsClose (Created 0)]))))
      = ws_inits (demo_reconnecting [WsOpen (Created 0), WsClose (Created 0)])"
    unfolding demo_reconnecting_def[symmetric] Let_def by blast+
  from reconnect_scheduled_once_then_cancelled [of
      "Some (demo_config\<lparr>cfg_webSocket := Some (WebSocketHandler demo_quiet_handler)\<rparr>)"
      "''session_0''" 1000 "reads_at 1000" demo_browser CLOSED False "\<lambda>u. True" "[WsOpen (Created 0)]"
      "Created 0" demo_quiet_handler]
  have c: "ws_inits (demo_reconnecting [WsOpen (Created 0), WsClose (Created 0)]) = 1"
    unfolding demo_reconnecting_def[symmetric] Let_def demo_reconnecting_closed
    using h by (simp add: demo_reconnecting_open del: step.simps)
  show ?thesis
    using a b c d h t by (simp add: demo_reconnecting_open demo_opened_throwing del: step.simps run.simps)
qed

text \<open>
  On the example instance whose \<^verbatim>\<open>onClose\<close> callback throws, \<^verbatim>\<open>autoReconnect\<close> is unset
  and \<^verbatim>\<open>destroy()\<close> was not called, yet after the socket has closed no timer is pending
  and the timer event finds nothing to run: no reconnect is attempted. On the one with
  a \<^verbatim>\<open>reconnectDelay\<close> of 0 the reconnect is scheduled after 3000 ms, not after 0.
\<close>

theorem reconnect_lost_when_onClose_throws:
  "autoReconnect demo_throwing_handler \<noteq> Some False
   \<and> \<not> isDestroyed (self (demo_closed demo_throwing_handler))
   \<and> timers (demo_closed demo_throwing_handler) = []
   \<and> wsReconnectTimeout (self (demo_closed demo_throwing_handler)) = None
   \<and> ws_inits (demo_closed demo_throwing_handler) = 1
   \<and> ws_inits (step (TimerFires 1) (demo_closed demo_throwing_handler)) = 1
   \<and> reconnectDelay demo_zero_delay_handler = Some 0
   \<and> timers (demo_closed demo_zero_delay_handler) = [(1, 3000)]"
proof -
  have h: "autoReconnect demo_throwing_handler \<noteq> Some False"
    "reconnectDelay demo_zero_delay_handler = Some 0"
    by (simp_all add: demo_throwing_handler_def demo_zero_delay_handler_def
        demo_quiet_handler_def demo_ws_handler_def)
  have f: "step (TimerFires 1) (demo_closed demo_throwing_handler) = demo_closed demo_throwing_handler"
    by (simp add: demo_closed_timers)
  show ?thesis
    unfolding f using h by (simp add: demo_closed_timers)
qed

end
